theory Spec2Isabelle
  imports Main
begin

section \<open>The Python side: objects, classes, exceptions\<close>

text \<open>
  SIRFReg.py is an object-oriented wrapper around the native module \<open>pysirfreg\<close>.
  Every wrapper object holds an opaque handle (or None) and the class name it was
  created under. Handles are modelled as references into the native engine.
\<close>

type_synonym ref = nat

datatype py_class =
    C_Transformation
  | C_NiftiImage
  | C_NiftiImage3D
  | C_NiftiImage3DTensor
  | C_NiftiImage3DDisplacement
  | C_NiftiImage3DDeformation
  | C_NiftyResample
  | C_ImageWeightedMean
  | C_Mat44

text \<open>The classes an instance of each class is also an instance of (its linearised bases).\<close>

fun mro :: "py_class \<Rightarrow> py_class list" where
  "mro C_Transformation = [C_Transformation]"
| "mro C_NiftiImage = [C_NiftiImage]"
| "mro C_NiftiImage3D = [C_NiftiImage3D, C_NiftiImage]"
| "mro C_NiftiImage3DTensor = [C_NiftiImage3DTensor, C_NiftiImage]"
| "mro C_NiftiImage3DDisplacement =
     [C_NiftiImage3DDisplacement, C_NiftiImage3DTensor, C_NiftiImage, C_Transformation]"
| "mro C_NiftiImage3DDeformation =
     [C_NiftiImage3DDeformation, C_NiftiImage3DTensor, C_NiftiImage, C_Transformation]"
| "mro C_NiftyResample = [C_NiftyResample]"
| "mro C_ImageWeightedMean = [C_ImageWeightedMean]"
| "mro C_Mat44 = [C_Mat44, C_Transformation]"

record pyobj =
  cls :: py_class
  handle :: "ref option"
  name :: string

definition isinstance :: "pyobj \<Rightarrow> py_class \<Rightarrow> bool" where
  "isinstance x c \<longleftrightarrow> c \<in> set (mro (cls x))"

text \<open>
  Exceptions. The wrapper raises \<open>error(msg)\<close> itself; \<open>status_error\<close> is what
  \<open>check_status\<close> raises for a handle whose execution status is a failure, carrying
  the native engine's report.
\<close>

datatype 'e exn =
    AssertionError
  | TypeError
  | UnboundLocalError
  | error string
  | status_error 'e

text \<open>
  A wrapper method runs against the engine's state \<open>'w\<close>: it returns a value or raises,
  and leaves the engine in a new state either way.
\<close>

type_synonym ('w, 'e, 'a) py = "'w \<Rightarrow> ('e exn + 'a) \<times> 'w"

definition py_return :: "'a \<Rightarrow> ('w, 'e, 'a) py" where
  "py_return x w = (Inr x, w)"

definition py_raise :: "'e exn \<Rightarrow> ('w, 'e, 'a) py" where
  "py_raise e w = (Inl e, w)"

definition py_bind :: "('w, 'e, 'a) py \<Rightarrow> ('a \<Rightarrow> ('w, 'e, 'b) py) \<Rightarrow> ('w, 'e, 'b) py" where
  "py_bind m k w = (case m w of (Inl e, w') \<Rightarrow> (Inl e, w') | (Inr x, w') \<Rightarrow> k x w')"

definition py_assert :: "bool \<Rightarrow> ('w, 'e, unit) py" where
  "py_assert b = (if b then py_return () else py_raise AssertionError)"

section \<open>The native module\<close>

text \<open>
  The functions of \<open>pysirfreg\<close> the modelled methods call. The engine is not part of
  the Python source, so it is a parameter: each function takes the arguments the wrapper
  passes (a handle argument may be None) and the engine state, and answers with a data
  handle, which is either a failed execution status (\<open>Inl\<close>) or the data (\<open>Inr\<close>).
  \<open>'v\<close> is the type of floats.
\<close>

datatype data_handle = intDataHandle int | charDataHandle string

type_synonym ('w, 'e, 'a) native = "'w \<Rightarrow> ('e + 'a) \<times> 'w"

record ('w, 'e, 'v) pysirfreg =
  cSIRFReg_newObject :: "string \<Rightarrow> ('w, 'e, ref) native"
  cSIRFReg_setParameter ::
    "ref option \<Rightarrow> string \<Rightarrow> string \<Rightarrow> data_handle \<Rightarrow> ('w, 'e, unit) native"
  cSIRFReg_SIRFRegTransformation_get_as_deformation_field ::
    "ref option \<Rightarrow> string \<Rightarrow> ref option \<Rightarrow> ('w, 'e, ref) native"
  cSIRFReg_NiftiImage3DDeformation_compose_single_deformation ::
    "ref option \<Rightarrow> nat \<Rightarrow> string \<Rightarrow> ref option \<Rightarrow> ref option \<Rightarrow> ref option \<Rightarrow>
     ref option \<Rightarrow> ref option \<Rightarrow> ('w, 'e, ref) native"
  cSIRFReg_NiftiImage_dump_headers ::
    "nat \<Rightarrow> ref option \<Rightarrow> ref option \<Rightarrow> ref option \<Rightarrow> ref option \<Rightarrow> ref option \<Rightarrow>
     ('w, 'e, unit) native"
  cSIRFReg_NiftiImage_deep_copy :: "ref option \<Rightarrow> ref option \<Rightarrow> ('w, 'e, unit) native"
  cSIRFReg_NiftiImage_maths_im ::
    "ref option \<Rightarrow> ref option \<Rightarrow> ref option \<Rightarrow> int \<Rightarrow> ('w, 'e, unit) native"
  cSIRFReg_NiftiImage_maths_num ::
    "ref option \<Rightarrow> ref option \<Rightarrow> 'v \<Rightarrow> int \<Rightarrow> ('w, 'e, unit) native"
  cSIRFReg_NiftiImage_equal :: "ref option \<Rightarrow> ref option \<Rightarrow> ('w, 'e, int) native"
  cSIRFReg_NiftiImage_fill :: "ref option \<Rightarrow> 'v \<Rightarrow> ('w, 'e, unit) native"
  cSIRFReg_NiftiImage_change_datatype :: "ref option \<Rightarrow> string \<Rightarrow> ('w, 'e, unit) native"
  cSIRFReg_SIRFRegImageWeightedMean_add_image ::
    "ref option \<Rightarrow> ref option \<Rightarrow> 'v \<Rightarrow> ('w, 'e, unit) native"
  cSIRFReg_SIRFRegImageWeightedMean_add_image_filename ::
    "ref option \<Rightarrow> string \<Rightarrow> 'v \<Rightarrow> ('w, 'e, unit) native"
  cSIRFReg_SIRFRegImageWeightedMean_update :: "ref option \<Rightarrow> ('w, 'e, unit) native"

text \<open>Calling a native function: its effect on the engine, and the handle it returns.\<close>

definition call :: "('w, 'e, 'a) native \<Rightarrow> ('w, 'e, 'e + 'a) py" where
  "call f w = (case f w of (h, w') \<Rightarrow> (Inr h, w'))"

text \<open>
  Modelled from the spec: \<open>check_status\<close> and \<open>try_calling\<close> are imported from
  pUtilities, which is not among the sources. "Every action reports success/failure plus
  an error message string; callers must check status before using any returned object":
  \<open>check_status\<close> raises when the handle's execution status is a failure and otherwise
  gives access to the handle's data; \<open>try_calling\<close> checks a handle that carries a
  status only.
\<close>

definition check_status :: "'e + 'a \<Rightarrow> ('w, 'e, 'a) py" where
  "check_status h = (case h of Inl e \<Rightarrow> py_raise (status_error e) | Inr x \<Rightarrow> py_return x)"

definition try_calling :: "'e + unit \<Rightarrow> ('w, 'e, unit) py" where
  "try_calling returned_handle = check_status returned_handle"

section \<open>Constructors\<close>

text \<open>
  The constructors as called without a source (\<open>src=None\<close>), the only form the
  methods below use: the handle is a new native object of the class's name, checked.
\<close>

definition NiftiImage_init :: "('w, 'e, 'v) pysirfreg \<Rightarrow> ('w, 'e, pyobj) py" where
  "NiftiImage_init eng =
     py_bind (call (cSIRFReg_newObject eng ''NiftiImage'')) (\<lambda>h.
     py_bind (check_status h) (\<lambda>r.
     py_return \<lparr>cls = C_NiftiImage, handle = Some r, name = ''NiftiImage''\<rparr>))"

definition NiftiImage3D_init :: "('w, 'e, 'v) pysirfreg \<Rightarrow> ('w, 'e, pyobj) py" where
  "NiftiImage3D_init eng =
     py_bind (call (cSIRFReg_newObject eng ''NiftiImage3D'')) (\<lambda>h.
     py_bind (check_status h) (\<lambda>r.
     py_return \<lparr>cls = C_NiftiImage3D, handle = Some r, name = ''NiftiImage3D''\<rparr>))"

definition NiftiImage3DTensor_init :: "('w, 'e, 'v) pysirfreg \<Rightarrow> ('w, 'e, pyobj) py" where
  "NiftiImage3DTensor_init eng =
     py_bind (call (cSIRFReg_newObject eng ''NiftiImage3DTensor'')) (\<lambda>h.
     py_bind (check_status h) (\<lambda>r.
     py_return \<lparr>cls = C_NiftiImage3DTensor, handle = Some r, name = ''NiftiImage3DTensor''\<rparr>))"

definition NiftiImage3DDisplacement_init :: "('w, 'e, 'v) pysirfreg \<Rightarrow> ('w, 'e, pyobj) py" where
  "NiftiImage3DDisplacement_init eng =
     py_bind (call (cSIRFReg_newObject eng ''NiftiImage3DDisplacement'')) (\<lambda>h.
     py_bind (check_status h) (\<lambda>r.
     py_return \<lparr>cls = C_NiftiImage3DDisplacement, handle = Some r,
                name = ''NiftiImage3DDisplacement''\<rparr>))"

definition NiftiImage3DDeformation_init :: "('w, 'e, 'v) pysirfreg \<Rightarrow> ('w, 'e, pyobj) py" where
  "NiftiImage3DDeformation_init eng =
     py_bind (call (cSIRFReg_newObject eng ''NiftiImage3DDeformation'')) (\<lambda>h.
     py_bind (check_status h) (\<lambda>r.
     py_return \<lparr>cls = C_NiftiImage3DDeformation, handle = Some r,
                name = ''NiftiImage3DDeformation''\<rparr>))"

section \<open>Transformations\<close>

text \<open>\<open>_Transformation.get_as_deformation_field(self, ref)\<close>\<close>

definition get_as_deformation_field ::
  "('w, 'e, 'v) pysirfreg \<Rightarrow> pyobj \<Rightarrow> pyobj \<Rightarrow> ('w, 'e, pyobj) py" where
  "get_as_deformation_field eng self ref =
     py_bind (py_assert (isinstance ref C_NiftiImage3D)) (\<lambda>_.
     py_bind (NiftiImage3DDeformation_init eng) (\<lambda>output.
     py_bind (call (cSIRFReg_SIRFRegTransformation_get_as_deformation_field eng
                      (handle self) (name self) (handle ref))) (\<lambda>h.
     py_bind (check_status h) (\<lambda>r.
     py_return (output\<lparr>handle := Some r\<rparr>)))))"

text \<open>
  \<open>NiftiImage3DDeformation.compose_single_deformation(trans, ref)\<close>. The loop over
  \<open>trans\<close> (here \<open>chain\<close>) builds the string of type codes; the branches on \<open>len(trans)\<close> pass the
  handles of the operands and None for the rest.
\<close>

definition type_code :: "pyobj \<Rightarrow> string" where
  "type_code n =
     (if isinstance n C_Mat44 then ''1''
      else if isinstance n C_NiftiImage3DDisplacement then ''2''
      else if isinstance n C_NiftiImage3DDeformation then ''3''
      else '''')"

definition compose_single_deformation ::
  "('w, 'e, 'v) pysirfreg \<Rightarrow> pyobj list \<Rightarrow> pyobj \<Rightarrow> ('w, 'e, pyobj) py" where
  "compose_single_deformation eng chain ref =
     py_bind (py_assert (isinstance ref C_NiftiImage3D)) (\<lambda>_.
     py_bind (py_assert (list_all (\<lambda>n. isinstance n C_Transformation) chain)) (\<lambda>_.
     if length chain = 1 then get_as_deformation_field eng (chain ! 0) ref
     else
       let types = foldl (\<lambda>types n. types @ type_code n) '''' chain in
       py_bind (NiftiImage3DDeformation_init eng) (\<lambda>z.
       py_bind
         (if length chain = 2 then
            call (cSIRFReg_NiftiImage3DDeformation_compose_single_deformation eng
              (handle ref) (length chain) types
              (handle (chain ! 0)) (handle (chain ! 1)) None None None)
          else if length chain = 3 then
            call (cSIRFReg_NiftiImage3DDeformation_compose_single_deformation eng
              (handle ref) (length chain) types
              (handle (chain ! 0)) (handle (chain ! 1)) (handle (chain ! 2)) None None)
          else if length chain = 4 then
            call (cSIRFReg_NiftiImage3DDeformation_compose_single_deformation eng
              (handle ref) (length chain) types
              (handle (chain ! 0)) (handle (chain ! 1)) (handle (chain ! 2))
              (handle (chain ! 3)) None)
          else if length chain = 5 then
            call (cSIRFReg_NiftiImage3DDeformation_compose_single_deformation eng
              (handle ref) (length chain) types
              (handle (chain ! 0)) (handle (chain ! 1)) (handle (chain ! 2))
              (handle (chain ! 3)) (handle (chain ! 4)))
          else
            py_raise (error
              ''compose_single_deformation only implemented for up to 5 transformations.''))
         (\<lambda>h.
       py_bind (check_status h) (\<lambda>r.
       py_return (z\<lparr>handle := Some r\<rparr>))))))"

section \<open>Images\<close>

text \<open>\<open>NiftiImage.dump_header(self)\<close> and the static \<open>NiftiImage.dump_headers(to_dump)\<close>\<close>

definition dump_header :: "('w, 'e, 'v) pysirfreg \<Rightarrow> pyobj \<Rightarrow> ('w, 'e, unit) py" where
  "dump_header eng self =
     py_bind (call (cSIRFReg_NiftiImage_dump_headers eng 1 (handle self) None None None None))
       try_calling"

definition dump_headers :: "('w, 'e, 'v) pysirfreg \<Rightarrow> pyobj list \<Rightarrow> ('w, 'e, unit) py" where
  "dump_headers eng to_dump =
     py_bind (py_assert (list_all (\<lambda>n. isinstance n C_NiftiImage) to_dump)) (\<lambda>_.
     if length to_dump = 1 then
       py_bind (call (cSIRFReg_NiftiImage_dump_headers eng
         1 (handle (to_dump ! 0)) None None None None)) try_calling
     else if length to_dump = 2 then
       py_bind (call (cSIRFReg_NiftiImage_dump_headers eng
         2 (handle (to_dump ! 0)) (handle (to_dump ! 1)) None None None)) try_calling
     else if length to_dump = 3 then
       py_bind (call (cSIRFReg_NiftiImage_dump_headers eng
         3 (handle (to_dump ! 0)) (handle (to_dump ! 1)) (handle (to_dump ! 2)) None None))
         try_calling
     else if length to_dump = 4 then
       py_bind (call (cSIRFReg_NiftiImage_dump_headers eng
         4 (handle (to_dump ! 0)) (handle (to_dump ! 1)) (handle (to_dump ! 2))
         (handle (to_dump ! 3)) None)) try_calling
     else if length to_dump = 5 then
       py_bind (call (cSIRFReg_NiftiImage_dump_headers eng
         5 (handle (to_dump ! 0)) (handle (to_dump ! 1)) (handle (to_dump ! 2))
         (handle (to_dump ! 3)) (handle (to_dump ! 4)))) try_calling
     else py_raise (error ''dump_nifti_info only implemented for up to 5 images.''))"

text \<open>
  \<open>NiftiImage.deep_copy(self)\<close>. The new object is chosen by the receiver's \<open>name\<close>;
  for any other name no branch binds \<open>image\<close> and its first use raises.
\<close>

definition deep_copy :: "('w, 'e, 'v) pysirfreg \<Rightarrow> pyobj \<Rightarrow> ('w, 'e, pyobj) py" where
  "deep_copy eng self =
     py_bind (py_assert (handle self \<noteq> None)) (\<lambda>_.
     py_bind
       (if name self = ''NiftiImage'' then NiftiImage_init eng
        else if name self = ''NiftiImage3D'' then NiftiImage3D_init eng
        else if name self = ''NiftiImage3DTensor'' then NiftiImage3DTensor_init eng
        else if name self = ''NiftiImage3DDeformation'' then NiftiImage3DDeformation_init eng
        else if name self = ''NiftiImage3DDisplacement'' then NiftiImage3DDisplacement_init eng
        else py_raise UnboundLocalError) (\<lambda>image.
     py_bind (call (cSIRFReg_NiftiImage_deep_copy eng (handle image) (handle self))) (\<lambda>h.
     py_bind (try_calling h) (\<lambda>_.
     py_return image))))"

text \<open>
  The right operand of \<open>+\<close>, \<open>-\<close>, \<open>*\<close>: another wrapper object, or a number, which
  \<open>float(other)\<close> turns into a float. \<open>float\<close> of a wrapper object raises TypeError.
\<close>

datatype 'v operand = Image pyobj | Scalar 'v

definition float :: "'v operand \<Rightarrow> ('w, 'e, 'v) py" where
  "float other = (case other of Scalar v \<Rightarrow> py_return v | Image _ \<Rightarrow> py_raise TypeError)"

text \<open>\<open>isinstance(other, NiftiImage)\<close> for an operand.\<close>

definition is_NiftiImage :: "'v operand \<Rightarrow> bool" where
  "is_NiftiImage other = (case other of Image x \<Rightarrow> isinstance x C_NiftiImage | Scalar _ \<Rightarrow> False)"

definition operand_handle :: "'v operand \<Rightarrow> ref option" where
  "operand_handle other = (case other of Image x \<Rightarrow> handle x | Scalar _ \<Rightarrow> None)"

text \<open>
  \<open>NiftiImage.__add__\<close>, \<open>__sub__\<close>, \<open>__mul__\<close>. In each, \<open>check_status(z.handle)\<close>
  re-checks the handle of the copy, which \<open>deep_copy\<close> has checked already.
\<close>

definition NiftiImage_add ::
  "('w, 'e, 'v) pysirfreg \<Rightarrow> pyobj \<Rightarrow> 'v operand \<Rightarrow> ('w, 'e, pyobj) py" where
  "NiftiImage_add eng self other =
     py_bind (deep_copy eng self) (\<lambda>z.
     py_bind
       (if is_NiftiImage other then
          py_bind (call (cSIRFReg_NiftiImage_maths_im eng
            (handle z) (handle self) (operand_handle other) 0)) try_calling
        else
          py_bind (float other) (\<lambda>v.
          py_bind (call (cSIRFReg_NiftiImage_maths_num eng (handle z) (handle self) v 0))
            try_calling)) (\<lambda>_.
     py_return z))"

definition NiftiImage_sub ::
  "('w, 'e, 'v) pysirfreg \<Rightarrow> pyobj \<Rightarrow> 'v operand \<Rightarrow> ('w, 'e, pyobj) py" where
  "NiftiImage_sub eng self other =
     py_bind (deep_copy eng self) (\<lambda>z.
     py_bind
       (if is_NiftiImage other then
          py_bind (call (cSIRFReg_NiftiImage_maths_im eng
            (handle z) (handle self) (operand_handle other) 1)) try_calling
        else
          py_bind (float other) (\<lambda>v.
          py_bind (call (cSIRFReg_NiftiImage_maths_num eng (handle z) (handle self) v 1))
            try_calling)) (\<lambda>_.
     py_return z))"

definition NiftiImage_mul ::
  "('w, 'e, 'v) pysirfreg \<Rightarrow> pyobj \<Rightarrow> 'v operand \<Rightarrow> ('w, 'e, pyobj) py" where
  "NiftiImage_mul eng self other =
     py_bind (deep_copy eng self) (\<lambda>z.
     py_bind (float other) (\<lambda>v.
     py_bind (call (cSIRFReg_NiftiImage_maths_num eng (handle z) (handle self) v 2)) (\<lambda>h.
     py_bind (try_calling h) (\<lambda>_.
     py_return z))))"

text \<open>\<open>NiftiImage.__eq__(self, other)\<close>: the integer the engine's comparison answers.\<close>

definition NiftiImage_eq :: "('w, 'e, 'v) pysirfreg \<Rightarrow> pyobj \<Rightarrow> pyobj \<Rightarrow> ('w, 'e, int) py" where
  "NiftiImage_eq eng self other =
     py_bind (py_assert (isinstance other C_NiftiImage)) (\<lambda>_.
     py_bind (call (cSIRFReg_NiftiImage_equal eng (handle self) (handle other))) (\<lambda>h.
     py_bind (check_status h) (\<lambda>value.
     py_return value)))"

text \<open>\<open>NiftiImage.fill(self, val)\<close> and \<open>NiftiImage.change_datatype(self, datatype)\<close>\<close>

definition fill :: "('w, 'e, 'v) pysirfreg \<Rightarrow> pyobj \<Rightarrow> 'v \<Rightarrow> ('w, 'e, unit) py" where
  "fill eng self val =
     py_bind (py_assert (handle self \<noteq> None)) (\<lambda>_.
     py_bind (call (cSIRFReg_NiftiImage_fill eng (handle self) val)) try_calling)"

definition change_datatype :: "('w, 'e, 'v) pysirfreg \<Rightarrow> pyobj \<Rightarrow> string \<Rightarrow> ('w, 'e, unit) py" where
  "change_datatype eng self dt =
     py_bind (py_assert (handle self \<noteq> None)) (\<lambda>_.
     py_bind (call (cSIRFReg_NiftiImage_change_datatype eng (handle self) dt)) try_calling)"

section \<open>Resampler\<close>

text \<open>
  The internal utilities \<open>_setParameter\<close> and \<open>_set_int_par\<close> (Isabelle names cannot
  start with an underscore), and the interpolation setters of \<open>NiftyResample\<close>.
\<close>

definition internal_setParameter ::
  "('w, 'e, 'v) pysirfreg \<Rightarrow> ref option \<Rightarrow> string \<Rightarrow> string \<Rightarrow> data_handle \<Rightarrow> ('w, 'e, unit) py" where
  "internal_setParameter eng hs set_name par hv =
     py_bind (call (cSIRFReg_setParameter eng hs set_name par hv)) check_status"

definition internal_set_int_par ::
  "('w, 'e, 'v) pysirfreg \<Rightarrow> ref option \<Rightarrow> string \<Rightarrow> string \<Rightarrow> int \<Rightarrow> ('w, 'e, unit) py" where
  "internal_set_int_par eng hdl set_name par val =
     (let h = intDataHandle val in internal_setParameter eng hdl set_name par h)"

text \<open>\<open>assert isinstance(type, int)\<close> holds for every integer argument.\<close>

definition set_interpolation_type ::
  "('w, 'e, 'v) pysirfreg \<Rightarrow> pyobj \<Rightarrow> int \<Rightarrow> ('w, 'e, unit) py" where
  "set_interpolation_type eng self type =
     py_bind (py_assert True) (\<lambda>_.
     internal_set_int_par eng (handle self) (name self) ''interpolation_type'' type)"

definition set_interpolation_type_to_nearest_neighbour ::
  "('w, 'e, 'v) pysirfreg \<Rightarrow> pyobj \<Rightarrow> ('w, 'e, unit) py" where
  "set_interpolation_type_to_nearest_neighbour eng self =
     internal_set_int_par eng (handle self) (name self) ''interpolation_type'' 0"

definition set_interpolation_type_to_linear ::
  "('w, 'e, 'v) pysirfreg \<Rightarrow> pyobj \<Rightarrow> ('w, 'e, unit) py" where
  "set_interpolation_type_to_linear eng self =
     internal_set_int_par eng (handle self) (name self) ''interpolation_type'' 1"

definition set_interpolation_type_to_cubic_spline ::
  "('w, 'e, 'v) pysirfreg \<Rightarrow> pyobj \<Rightarrow> ('w, 'e, unit) py" where
  "set_interpolation_type_to_cubic_spline eng self =
     internal_set_int_par eng (handle self) (name self) ''interpolation_type'' 3"

definition set_interpolation_type_to_sinc ::
  "('w, 'e, 'v) pysirfreg \<Rightarrow> pyobj \<Rightarrow> ('w, 'e, unit) py" where
  "set_interpolation_type_to_sinc eng self =
     internal_set_int_par eng (handle self) (name self) ''interpolation_type'' 4"

text \<open>\<open>NiftyResample.__init__\<close>\<close>

definition NiftyResample_init :: "('w, 'e, 'v) pysirfreg \<Rightarrow> ('w, 'e, pyobj) py" where
  "NiftyResample_init eng =
     py_bind (call (cSIRFReg_newObject eng ''SIRFRegNiftyResample'')) (\<lambda>h.
     py_bind (check_status h) (\<lambda>r.
     py_return \<lparr>cls = C_NiftyResample, handle = Some r, name = ''SIRFRegNiftyResample''\<rparr>))"

section \<open>Weighted mean\<close>

text \<open>\<open>ImageWeightedMean.__init__\<close>, \<open>add_image(image, weight)\<close> and \<open>update()\<close>\<close>

datatype image_arg = Object pyobj | Str string

definition ImageWeightedMean_init :: "('w, 'e, 'v) pysirfreg \<Rightarrow> ('w, 'e, pyobj) py" where
  "ImageWeightedMean_init eng =
     py_bind (call (cSIRFReg_newObject eng ''SIRFRegImageWeightedMean'')) (\<lambda>h.
     py_bind (check_status h) (\<lambda>r.
     py_return \<lparr>cls = C_ImageWeightedMean, handle = Some r,
                name = ''SIRFRegImageWeightedMean''\<rparr>))"

definition add_image ::
  "('w, 'e, 'v) pysirfreg \<Rightarrow> pyobj \<Rightarrow> image_arg \<Rightarrow> 'v \<Rightarrow> ('w, 'e, unit) py" where
  "add_image eng self img weight =
     (case img of
        Object x \<Rightarrow>
          if isinstance x C_NiftiImage then
            py_bind (call (cSIRFReg_SIRFRegImageWeightedMean_add_image eng
              (handle self) (handle x) weight)) try_calling
          else py_raise (error
            ''pSIRFReg.ImageWeightedMean.add_image: image must be NiftiImage or filename.'')
      | Str filename \<Rightarrow>
          py_bind (call (cSIRFReg_SIRFRegImageWeightedMean_add_image_filename eng
            (handle self) filename weight)) try_calling)"

definition ImageWeightedMean_update :: "('w, 'e, 'v) pysirfreg \<Rightarrow> pyobj \<Rightarrow> ('w, 'e, unit) py" where
  "ImageWeightedMean_update eng self =
     py_bind (call (cSIRFReg_SIRFRegImageWeightedMean_update eng (handle self))) try_calling"

section \<open>Engines for concrete runs\<close>

text \<open>
  A recording engine: it hands out consecutive references for the objects it is asked
  to create, records every parameter that is set and every header dump, and reports
  success. Its floats are integers, its failure reports are strings.
\<close>

record recorder =
  allocated :: nat
  parameters :: "(ref option \<times> string \<times> string \<times> data_handle) list"
  dumps :: "(nat \<times> ref option list) list"

definition allocate :: "(recorder, string, ref) native" where
  "allocate w = (Inr (allocated w), w\<lparr>allocated := Suc (allocated w)\<rparr>)"

definition succeed :: "(recorder, string, unit) native" where
  "succeed w = (Inr (), w)"

definition recording_engine :: "(recorder, string, int) pysirfreg" where
  "recording_engine = \<lparr>
     cSIRFReg_newObject = (\<lambda>nm. allocate),
     cSIRFReg_setParameter =
       (\<lambda>hs set_name par hv w. (Inr (), w\<lparr>parameters := parameters w @ [(hs, set_name, par, hv)]\<rparr>)),
     cSIRFReg_SIRFRegTransformation_get_as_deformation_field = (\<lambda>h nm r. allocate),
     cSIRFReg_NiftiImage3DDeformation_compose_single_deformation =
       (\<lambda>r n types h1 h2 h3 h4 h5. allocate),
     cSIRFReg_NiftiImage_dump_headers =
       (\<lambda>n h1 h2 h3 h4 h5 w. (Inr (), w\<lparr>dumps := dumps w @ [(n, [h1, h2, h3, h4, h5])]\<rparr>)),
     cSIRFReg_NiftiImage_deep_copy = (\<lambda>dst src. succeed),
     cSIRFReg_NiftiImage_maths_im = (\<lambda>dst a b op. succeed),
     cSIRFReg_NiftiImage_maths_num = (\<lambda>dst a v op. succeed),
     cSIRFReg_NiftiImage_equal = (\<lambda>a b w. (Inr (if a = b then 1 else 0), w)),
     cSIRFReg_NiftiImage_fill = (\<lambda>h v. succeed),
     cSIRFReg_NiftiImage_change_datatype = (\<lambda>h dt. succeed),
     cSIRFReg_SIRFRegImageWeightedMean_add_image = (\<lambda>h im wt. succeed),
     cSIRFReg_SIRFRegImageWeightedMean_add_image_filename = (\<lambda>h f wt. succeed),
     cSIRFReg_SIRFRegImageWeightedMean_update = (\<lambda>h. succeed)
   \<rparr>"

text \<open>Objects for concrete runs, as their constructors build them.\<close>

definition affine0 :: pyobj where
  "affine0 = \<lparr>cls = C_Mat44, handle = Some 0, name = ''SIRFRegMat44''\<rparr>"

definition reference1 :: pyobj where
  "reference1 = \<lparr>cls = C_NiftiImage3D, handle = Some 1, name = ''NiftiImage3D''\<rparr>"

definition displacement2 :: pyobj where
  "displacement2 =
     \<lparr>cls = C_NiftiImage3DDisplacement, handle = Some 2, name = ''NiftiImage3DDisplacement''\<rparr>"

definition resampler3 :: pyobj where
  "resampler3 = \<lparr>cls = C_NiftyResample, handle = Some 3, name = ''SIRFRegNiftyResample''\<rparr>"

definition recorder4 :: recorder where
  "recorder4 = \<lparr>allocated = 4, parameters = [], dumps = []\<rparr>"

section \<open>Vocabulary of the properties\<close>

text \<open>
  The wrapper's two arity errors: what the specification calls \<open>UnsupportedArity\<close>.
\<close>

definition UnsupportedArity :: "'e exn \<Rightarrow> bool" where
  "UnsupportedArity e \<longleftrightarrow>
     e = error ''compose_single_deformation only implemented for up to 5 transformations.'' \<or>
     e = error ''dump_nifti_info only implemented for up to 5 images.''"

definition fails_with :: "('e exn \<Rightarrow> bool) \<Rightarrow> ('e exn + 'a) \<times> 'w \<Rightarrow> bool" where
  "fails_with P outcome = (case fst outcome of Inl e \<Rightarrow> P e | Inr _ \<Rightarrow> False)"

text \<open>The name each class's constructor stores in \<open>self.name\<close>.\<close>

fun class_name :: "py_class \<Rightarrow> string" where
  "class_name C_Transformation = ''SIRFRegTransformation''"
| "class_name C_NiftiImage = ''NiftiImage''"
| "class_name C_NiftiImage3D = ''NiftiImage3D''"
| "class_name C_NiftiImage3DTensor = ''NiftiImage3DTensor''"
| "class_name C_NiftiImage3DDisplacement = ''NiftiImage3DDisplacement''"
| "class_name C_NiftiImage3DDeformation = ''NiftiImage3DDeformation''"
| "class_name C_NiftyResample = ''SIRFRegNiftyResample''"
| "class_name C_ImageWeightedMean = ''SIRFRegImageWeightedMean''"
| "class_name C_Mat44 = ''SIRFRegMat44''"

text \<open>An object whose \<open>name\<close> is still the one its constructor stored.\<close>

definition constructed :: "pyobj \<Rightarrow> bool" where
  "constructed x \<longleftrightarrow> name x = class_name (cls x)"

text \<open>
  What the recording engine sees a resampler method set for \<open>interpolation_type\<close>.
\<close>

definition codes_set_by ::
  "((recorder, string, int) pysirfreg \<Rightarrow> pyobj \<Rightarrow> (recorder, string, unit) py) \<Rightarrow> data_handle list"
  where
  "codes_set_by setter =
     map (\<lambda>(hs, set_name, par, hv). hv)
       (filter (\<lambda>(hs, set_name, par, hv). par = ''interpolation_type'')
         (parameters (snd (setter recording_engine resampler3 recorder4))))"

section \<open>The engine as the specification describes it\<close>

text \<open>
  Modelled from the spec: the native engine behind \<open>pysirfreg\<close> is not among the
  sources. This is its Volumetric Image component (section 4.1) and its Weighted Mean
  Aggregator (section 4.6), with the error kinds of section 7. An image has a dimension
  vector, a voxel datatype and a voxel buffer. The engine owns the objects; a handle is
  the position of an object in the engine's store, and a new object is stored at the
  end. Voxels and weights are of a number type \<open>'v\<close> with the arithmetic the operations
  use.
\<close>

record 'v image =
  dims :: "nat list"
  dtype :: string
  voxels :: "'v list"

datatype 'v source = Given "'v image" | Named string

datatype 'v entity =
    ImageData "'v image"
  | Aggregator "('v source \<times> 'v) list" "'v image option"
  | Opaque string

datatype spec_error =
    IOError
  | DimensionMismatch
  | ConfigurationError
  | TypeMismatch
  | NotModelled

record 'v engine_state =
  objects :: "'v entity list"
  files :: "(string \<times> 'v image) list"

definition entity_at :: "'v engine_state \<Rightarrow> ref option \<Rightarrow> 'v entity option" where
  "entity_at s h =
     (case h of
        None \<Rightarrow> None
      | Some r \<Rightarrow> if r < length (objects s) then Some (objects s ! r) else None)"

definition image_at :: "'v engine_state \<Rightarrow> ref option \<Rightarrow> 'v image option" where
  "image_at s h = (case entity_at s h of Some (ImageData im) \<Rightarrow> Some im | _ \<Rightarrow> None)"

definition store :: "ref option \<Rightarrow> 'v entity \<Rightarrow> 'v engine_state \<Rightarrow> 'v engine_state" where
  "store h e s = (case h of None \<Rightarrow> s | Some r \<Rightarrow> s\<lparr>objects := (objects s)[r := e]\<rparr>)"

text \<open>"Created empty": no extent, no voxels.\<close>

definition empty_image :: "'v image" where
  "empty_image = \<lparr>dims = [0], dtype = ''float32'', voxels = []\<rparr>"

definition image_names :: "string list" where
  "image_names = [''NiftiImage'', ''NiftiImage3D'', ''NiftiImage3DTensor'',
     ''NiftiImage3DDisplacement'', ''NiftiImage3DDeformation'']"

definition new_entity :: "string \<Rightarrow> 'v entity" where
  "new_entity nm =
     (if nm \<in> set image_names then ImageData empty_image
      else if nm = ''SIRFRegImageWeightedMean'' then Aggregator [] None
      else Opaque nm)"

definition spec_newObject :: "string \<Rightarrow> ('v engine_state, spec_error, ref) native" where
  "spec_newObject nm s = (Inr (length (objects s)), s\<lparr>objects := objects s @ [new_entity nm]\<rparr>)"

text \<open>"Deep-copy (new independent buffer, same metadata)": the destination becomes the
  source's value.\<close>

definition spec_deep_copy ::
  "ref option \<Rightarrow> ref option \<Rightarrow> ('v engine_state, spec_error, unit) native" where
  "spec_deep_copy dst src s =
     (case (image_at s dst, image_at s src) of
        (Some _, Some im) \<Rightarrow> (Inr (), store dst (ImageData im) s)
      | _ \<Rightarrow> (Inl TypeMismatch, s))"

text \<open>"Equality test (bitwise/metadata comparison, not approximate)".\<close>

definition spec_equal ::
  "ref option \<Rightarrow> ref option \<Rightarrow> ('v engine_state, spec_error, int) native" where
  "spec_equal a b s =
     (case (image_at s a, image_at s b) of
        (Some x, Some y) \<Rightarrow> (Inr (if x = y then 1 else 0), s)
      | _ \<Rightarrow> (Inl TypeMismatch, s))"

text \<open>"Fill with a constant".\<close>

definition spec_fill :: "ref option \<Rightarrow> 'v \<Rightarrow> ('v engine_state, spec_error, unit) native" where
  "spec_fill h v s =
     (case image_at s h of
        Some im \<Rightarrow> (Inr (), store h (ImageData (im\<lparr>voxels := map (\<lambda>_. v) (voxels im)\<rparr>)) s)
      | None \<Rightarrow> (Inl TypeMismatch, s))"

text \<open>"Changing datatype performs a value-preserving cast".\<close>

definition spec_change_datatype ::
  "ref option \<Rightarrow> string \<Rightarrow> ('v engine_state, spec_error, unit) native" where
  "spec_change_datatype h dt s =
     (case image_at s h of
        Some im \<Rightarrow> (Inr (), store h (ImageData (im\<lparr>dtype := dt\<rparr>)) s)
      | None \<Rightarrow> (Inl TypeMismatch, s))"

text \<open>
  "Elementwise add/subtract with another Image of identical dimensions (fails with
  DimensionMismatch otherwise) or with a scalar (broadcast); scalar multiply". The
  operation codes are the ones the wrapper passes: 0 adds, 1 subtracts, 2 multiplies.
  The result is written to the destination; the operands are only read.
\<close>

definition image_op :: "int \<Rightarrow> ('v::{plus,minus} \<Rightarrow> 'v \<Rightarrow> 'v) option" where
  "image_op c = (if c = 0 then Some (+) else if c = 1 then Some (-) else None)"

definition scalar_op :: "int \<Rightarrow> ('v::{plus,minus,times} \<Rightarrow> 'v \<Rightarrow> 'v) option" where
  "scalar_op c =
     (if c = 0 then Some (+) else if c = 1 then Some (-) else if c = 2 then Some (*) else None)"

definition spec_maths_im ::
  "ref option \<Rightarrow> ref option \<Rightarrow> ref option \<Rightarrow> int \<Rightarrow>
   ('v::{plus,minus} engine_state, spec_error, unit) native" where
  "spec_maths_im dst a b c s =
     (case (image_at s dst, image_at s a, image_at s b, image_op c) of
        (Some _, Some x, Some y, Some f) \<Rightarrow>
          if dims x = dims y
          then (Inr (), store dst (ImageData (x\<lparr>voxels := map2 f (voxels x) (voxels y)\<rparr>)) s)
          else (Inl DimensionMismatch, s)
      | _ \<Rightarrow> (Inl TypeMismatch, s))"

definition spec_maths_num ::
  "ref option \<Rightarrow> ref option \<Rightarrow> 'v \<Rightarrow> int \<Rightarrow>
   ('v::{plus,minus,times} engine_state, spec_error, unit) native" where
  "spec_maths_num dst a v c s =
     (case (image_at s dst, image_at s a, scalar_op c) of
        (Some _, Some x, Some f) \<Rightarrow>
          (Inr (), store dst (ImageData (x\<lparr>voxels := map (\<lambda>u. f u v) (voxels x)\<rparr>)) s)
      | _ \<Rightarrow> (Inl TypeMismatch, s))"

text \<open>"Dump human-readable header metadata for up to 5 images jointly": the text goes
  to a diagnostic channel, outside the model; the images must exist.\<close>

definition spec_dump_headers ::
  "nat \<Rightarrow> ref option \<Rightarrow> ref option \<Rightarrow> ref option \<Rightarrow> ref option \<Rightarrow> ref option \<Rightarrow>
   ('v engine_state, spec_error, unit) native" where
  "spec_dump_headers n h1 h2 h3 h4 h5 s =
     (if 1 \<le> n \<and> n \<le> 5 \<and> list_all (\<lambda>h. image_at s h \<noteq> None) (take n [h1, h2, h3, h4, h5])
      then (Inr (), s) else (Inl TypeMismatch, s))"

text \<open>
  The aggregator "accumulates (Image-or-filename, weight) pairs"; an image is taken by
  value, a file is read when the mean is computed.
\<close>

definition spec_add_image ::
  "ref option \<Rightarrow> ref option \<Rightarrow> 'v \<Rightarrow> ('v engine_state, spec_error, unit) native" where
  "spec_add_image h img weight s =
     (case (entity_at s h, image_at s img) of
        (Some (Aggregator entries out), Some im) \<Rightarrow>
          (Inr (), store h (Aggregator (entries @ [(Given im, weight)]) out) s)
      | _ \<Rightarrow> (Inl TypeMismatch, s))"

definition spec_add_image_filename ::
  "ref option \<Rightarrow> string \<Rightarrow> 'v \<Rightarrow> ('v engine_state, spec_error, unit) native" where
  "spec_add_image_filename h filename weight s =
     (case entity_at s h of
        Some (Aggregator entries out) \<Rightarrow>
          (Inr (), store h (Aggregator (entries @ [(Named filename, weight)]) out) s)
      | _ \<Rightarrow> (Inl TypeMismatch, s))"

text \<open>"Construct from file path (fails with IOError if unreadable or malformed)".\<close>

fun resolve :: "(string \<times> 'v image) list \<Rightarrow> 'v source list \<Rightarrow> 'v image list option" where
  "resolve fs [] = Some []"
| "resolve fs (Given im # rest) = map_option ((#) im) (resolve fs rest)"
| "resolve fs (Named f # rest) =
     (case map_of fs f of
        None \<Rightarrow> None
      | Some im \<Rightarrow> map_option ((#) im) (resolve fs rest))"

text \<open>The sum of the weights, and per voxel "sum(weight_i * value_i) / sum(weight_i)".\<close>

definition total_weight :: "'v::{zero,plus} list \<Rightarrow> 'v" where
  "total_weight ws = foldl (+) 0 ws"

fun weighted_sum :: "'v::{zero,plus,times} list \<Rightarrow> 'v list list \<Rightarrow> 'v list" where
  "weighted_sum [] bufs = []"
| "weighted_sum ws [] = []"
| "weighted_sum (w # ws) [buf] = map (\<lambda>u. w * u) buf"
| "weighted_sum (w # ws) (buf # bufs) = map2 (+) (map (\<lambda>u. w * u) buf) (weighted_sum ws bufs)"

definition weighted_mean :: "'v::{zero,plus,times,divide} list \<Rightarrow> 'v image list \<Rightarrow> 'v image" where
  "weighted_mean ws ims =
     (hd ims)\<lparr>voxels :=
        map (\<lambda>u. divide u (total_weight ws)) (weighted_sum ws (map voxels ims))\<rparr>"

text \<open>
  "Weights need not sum to 1; zero total weight is a ConfigurationError"; the images
  "must share identical dimensions (fails with DimensionMismatch otherwise)".
\<close>

definition spec_update ::
  "ref option \<Rightarrow> ('v::{zero,plus,times,divide} engine_state, spec_error, unit) native" where
  "spec_update h s =
     (case entity_at s h of
        Some (Aggregator entries out) \<Rightarrow>
          if total_weight (map snd entries) = 0 then (Inl ConfigurationError, s)
          else (case resolve (files s) (map fst entries) of
                  None \<Rightarrow> (Inl IOError, s)
                | Some [] \<Rightarrow> (Inl ConfigurationError, s)
                | Some (im # ims) \<Rightarrow>
                    if list_all (\<lambda>x. dims x = dims im) ims
                    then (Inr (), store h (Aggregator entries
                            (Some (weighted_mean (map snd entries) (im # ims)))) s)
                    else (Inl DimensionMismatch, s))
      | _ \<Rightarrow> (Inl TypeMismatch, s))"

text \<open>
  The engine of the two components. Requests to the parts this model leaves out
  (parameters of registration and resampling, transformations) answer \<open>NotModelled\<close>.
\<close>

definition spec_engine ::
  "('v::{zero,plus,minus,times,divide} engine_state, spec_error, 'v) pysirfreg" where
  "spec_engine = \<lparr>
     cSIRFReg_newObject = spec_newObject,
     cSIRFReg_setParameter = (\<lambda>hs set_name par hv s. (Inl NotModelled, s)),
     cSIRFReg_SIRFRegTransformation_get_as_deformation_field = (\<lambda>h nm r s. (Inl NotModelled, s)),
     cSIRFReg_NiftiImage3DDeformation_compose_single_deformation =
       (\<lambda>r n types h1 h2 h3 h4 h5 s. (Inl NotModelled, s)),
     cSIRFReg_NiftiImage_dump_headers = spec_dump_headers,
     cSIRFReg_NiftiImage_deep_copy = spec_deep_copy,
     cSIRFReg_NiftiImage_maths_im = spec_maths_im,
     cSIRFReg_NiftiImage_maths_num = spec_maths_num,
     cSIRFReg_NiftiImage_equal = spec_equal,
     cSIRFReg_NiftiImage_fill = spec_fill,
     cSIRFReg_NiftiImage_change_datatype = spec_change_datatype,
     cSIRFReg_SIRFRegImageWeightedMean_add_image = spec_add_image,
     cSIRFReg_SIRFRegImageWeightedMean_add_image_filename = spec_add_image_filename,
     cSIRFReg_SIRFRegImageWeightedMean_update = spec_update
   \<rparr>"

section \<open>Client programs\<close>

text \<open>
  What a caller does to an image \<open>C\<close> it holds: fill it, change its datatype, or
  update it by arithmetic (\<open>C += x\<close>, \<open>C -= x\<close>, \<open>C *= x\<close>; the class defines no in-place
  operators, so Python evaluates \<open>C + x\<close> and binds \<open>C\<close> to the result). Each step gives
  the object \<open>C\<close> names afterwards.
\<close>

datatype 'v mutation =
    Fill 'v
  | ChangeDatatype string
  | AddTo "'v operand"
  | SubFrom "'v operand"
  | MulBy "'v operand"

fun mutate :: "('w, 'e, 'v) pysirfreg \<Rightarrow> 'v mutation \<Rightarrow> pyobj \<Rightarrow> ('w, 'e, pyobj) py" where
  "mutate eng (Fill v) C = py_bind (fill eng C v) (\<lambda>_. py_return C)"
| "mutate eng (ChangeDatatype dt) C = py_bind (change_datatype eng C dt) (\<lambda>_. py_return C)"
| "mutate eng (AddTo x) C = NiftiImage_add eng C x"
| "mutate eng (SubFrom x) C = NiftiImage_sub eng C x"
| "mutate eng (MulBy x) C = NiftiImage_mul eng C x"

fun mutations :: "('w, 'e, 'v) pysirfreg \<Rightarrow> 'v mutation list \<Rightarrow> pyobj \<Rightarrow> ('w, 'e, pyobj) py" where
  "mutations eng [] C = py_return C"
| "mutations eng (m # ms) C = py_bind (mutate eng m C) (mutations eng ms)"

text \<open>
  A weighted mean from scratch: create the aggregator, add each image with its weight,
  update.
\<close>

fun add_images ::
  "('w, 'e, 'v) pysirfreg \<Rightarrow> pyobj \<Rightarrow> (image_arg \<times> 'v) list \<Rightarrow> ('w, 'e, unit) py" where
  "add_images eng wm [] = py_return ()"
| "add_images eng wm ((img, weight) # rest) =
     py_bind (add_image eng wm img weight) (\<lambda>_. add_images eng wm rest)"

definition mean_of ::
  "('w, 'e, 'v) pysirfreg \<Rightarrow> (image_arg \<times> 'v) list \<Rightarrow> ('w, 'e, unit) py" where
  "mean_of eng pairs =
     py_bind (ImageWeightedMean_init eng) (\<lambda>wm.
     py_bind (add_images eng wm pairs) (\<lambda>_.
     ImageWeightedMean_update eng wm))"

text \<open>A state for concrete runs: two images of two voxels each.\<close>

definition image_a :: "int image" where
  "image_a = \<lparr>dims = [2], dtype = ''float32'', voxels = [2, 4]\<rparr>"

definition image_b :: "int image" where
  "image_b = \<lparr>dims = [2], dtype = ''float32'', voxels = [10, 20]\<rparr>"

definition state2 :: "int engine_state" where
  "state2 = \<lparr>objects = [ImageData image_a, ImageData image_b], files = []\<rparr>"

definition object_a :: pyobj where
  "object_a = \<lparr>cls = C_NiftiImage, handle = Some 0, name = ''NiftiImage''\<rparr>"

definition object_b :: pyobj where
  "object_b = \<lparr>cls = C_NiftiImage, handle = Some 1, name = ''NiftiImage''\<rparr>"

definition copy_a :: pyobj where
  "copy_a = \<lparr>cls = C_NiftiImage, handle = Some 2, name = ''NiftiImage''\<rparr>"

definition state3 :: "int engine_state" where
  "state3 = \<lparr>objects = [ImageData image_a, ImageData image_b, ImageData image_a], files = []\<rparr>"

section \<open>Vocabulary for the engine's store\<close>

text \<open>
  \<open>extends s s'\<close>: every object of \<open>s\<close> is in \<open>s'\<close> at its place with its value, and the files
  are the same; \<open>s'\<close> may hold more objects.
\<close>

definition extends :: "'v engine_state \<Rightarrow> 'v engine_state \<Rightarrow> bool" where
  "extends s s' \<longleftrightarrow>
     take (length (objects s)) (objects s') = objects s \<and> files s' = files s"

text \<open>An object whose handle refers to an object of \<open>s'\<close> that \<open>s\<close> does not have.\<close>

definition fresh_in :: "'v engine_state \<Rightarrow> 'v engine_state \<Rightarrow> pyobj \<Rightarrow> bool" where
  "fresh_in s s' z =
     (case handle z of
        None \<Rightarrow> False
      | Some r \<Rightarrow> length (objects s) \<le> r \<and> r < length (objects s'))"

text \<open>The state is unchanged, or differs by what is stored at \<open>dst\<close>.\<close>

definition writes_to :: "ref option \<Rightarrow> 'v engine_state \<Rightarrow> 'v engine_state \<Rightarrow> bool" where
  "writes_to dst s s' \<longleftrightarrow> s' = s \<or> (\<exists>e. s' = store dst e s)"



text \<open>An argument \<open>add_image\<close> accepts: an image the engine holds, or a file name.\<close>

definition valid_arg :: "'v engine_state \<Rightarrow> image_arg \<times> 'v \<Rightarrow> bool" where
  "valid_arg s p =
     (case fst p of
        Object x \<Rightarrow> isinstance x C_NiftiImage \<and> image_at s (handle x) \<noteq> None
      | Str filename \<Rightarrow> True)"

section \<open>Running wrapper code\<close>

text \<open>How each step of a method acts on the engine state.\<close>

lemma py_bind_return: "py_bind (py_return x) k w = k x w"
  by (simp add: py_bind_def py_return_def)

lemma py_bind_raise: "py_bind (py_raise e) k w = (Inl e, w)"
  by (simp add: py_bind_def py_raise_def)

lemma py_bind_assert:
  "py_bind (py_assert b) k w = (if b then k () w else (Inl AssertionError, w))"
  by (simp add: py_bind_def py_assert_def py_return_def py_raise_def)

lemma py_bind_call: "py_bind (call f) k w = (case f w of (h, w') \<Rightarrow> k h w')"
  by (simp add: py_bind_def call_def split: prod.splits)

lemma py_bind_check_status:
  "py_bind (check_status h) k w =
     (case h of Inl e \<Rightarrow> (Inl (status_error e), w) | Inr x \<Rightarrow> k x w)"
  by (simp add: py_bind_def check_status_def py_return_def py_raise_def split: sum.splits)

lemma py_bind_try_calling:
  "py_bind (try_calling h) k w =
     (case h of Inl e \<Rightarrow> (Inl (status_error e), w) | Inr x \<Rightarrow> k x w)"
  by (simp add: try_calling_def py_bind_check_status)

lemma py_bind_assoc: "py_bind (py_bind m f) g w = py_bind m (\<lambda>x. py_bind (f x) g) w"
  by (simp add: py_bind_def split: prod.splits sum.splits)

lemma py_bind_if:
  "py_bind (if b then m1 else m2) k w = (if b then py_bind m1 k w else py_bind m2 k w)"
  by simp

lemma check_status_run:
  "check_status h w = (case h of Inl e \<Rightarrow> (Inl (status_error e), w) | Inr x \<Rightarrow> (Inr x, w))"
  by (simp add: check_status_def py_return_def py_raise_def split: sum.splits)

lemma try_calling_run:
  "try_calling h w = (case h of Inl e \<Rightarrow> (Inl (status_error e), w) | Inr x \<Rightarrow> (Inr x, w))"
  by (simp add: try_calling_def check_status_run)

lemmas py_simps =
  py_bind_return py_bind_raise py_bind_assert py_bind_call py_bind_check_status
  py_bind_try_calling py_bind_assoc py_bind_if check_status_run try_calling_run
  py_return_def py_raise_def

lemma py_bind_call_check:
  "py_bind (call f) check_status w =
     (case f w of (Inl e, w') \<Rightarrow> (Inl (status_error e), w') | (Inr x, w') \<Rightarrow> (Inr x, w'))"
  by (simp add: py_simps split: prod.splits sum.splits)

lemma py_bind_call_try:
  "py_bind (call f) try_calling w =
     (case f w of (Inl e, w') \<Rightarrow> (Inl (status_error e), w') | (Inr x, w') \<Rightarrow> (Inr (), w'))"
  by (simp add: py_bind_def call_def try_calling_def check_status_def py_raise_def py_return_def
      split: prod.splits sum.splits)

text \<open>The outcome of each constructor: the engine's failure, or the new object.\<close>

lemma init_outcome:
  "NiftiImage_init eng w =
     (case cSIRFReg_newObject eng ''NiftiImage'' w of
        (Inl e, w') \<Rightarrow> (Inl (status_error e), w')
      | (Inr r, w') \<Rightarrow> (Inr \<lparr>cls = C_NiftiImage, handle = Some r, name = ''NiftiImage''\<rparr>, w'))"
  "NiftiImage3D_init eng w =
     (case cSIRFReg_newObject eng ''NiftiImage3D'' w of
        (Inl e, w') \<Rightarrow> (Inl (status_error e), w')
      | (Inr r, w') \<Rightarrow> (Inr \<lparr>cls = C_NiftiImage3D, handle = Some r, name = ''NiftiImage3D''\<rparr>, w'))"
  "NiftiImage3DTensor_init eng w =
     (case cSIRFReg_newObject eng ''NiftiImage3DTensor'' w of
        (Inl e, w') \<Rightarrow> (Inl (status_error e), w')
      | (Inr r, w') \<Rightarrow>
          (Inr \<lparr>cls = C_NiftiImage3DTensor, handle = Some r, name = ''NiftiImage3DTensor''\<rparr>, w'))"
  "NiftiImage3DDisplacement_init eng w =
     (case cSIRFReg_newObject eng ''NiftiImage3DDisplacement'' w of
        (Inl e, w') \<Rightarrow> (Inl (status_error e), w')
      | (Inr r, w') \<Rightarrow>
          (Inr \<lparr>cls = C_NiftiImage3DDisplacement, handle = Some r,
                 name = ''NiftiImage3DDisplacement''\<rparr>, w'))"
  "NiftiImage3DDeformation_init eng w =
     (case cSIRFReg_newObject eng ''NiftiImage3DDeformation'' w of
        (Inl e, w') \<Rightarrow> (Inl (status_error e), w')
      | (Inr r, w') \<Rightarrow>
          (Inr \<lparr>cls = C_NiftiImage3DDeformation, handle = Some r,
                 name = ''NiftiImage3DDeformation''\<rparr>, w'))"
  by (simp_all add: NiftiImage_init_def NiftiImage3D_init_def NiftiImage3DTensor_init_def
      NiftiImage3DDisplacement_init_def NiftiImage3DDeformation_init_def
      py_simps split: prod.splits sum.splits)

lemma image_classes:
  "isinstance x C_NiftiImage \<longleftrightarrow>
     cls x \<in> {C_NiftiImage, C_NiftiImage3D, C_NiftiImage3DTensor,
               C_NiftiImage3DDisplacement, C_NiftiImage3DDeformation}"
  by (cases "cls x") (simp_all add: isinstance_def)

text \<open>The functions of the specified engine.\<close>

lemma spec_engine_fields:
  "cSIRFReg_newObject spec_engine = spec_newObject"
  "cSIRFReg_NiftiImage_dump_headers spec_engine = spec_dump_headers"
  "cSIRFReg_NiftiImage_deep_copy spec_engine = spec_deep_copy"
  "cSIRFReg_NiftiImage_maths_im spec_engine = spec_maths_im"
  "cSIRFReg_NiftiImage_maths_num spec_engine = spec_maths_num"
  "cSIRFReg_NiftiImage_equal spec_engine = spec_equal"
  "cSIRFReg_NiftiImage_fill spec_engine = spec_fill"
  "cSIRFReg_NiftiImage_change_datatype spec_engine = spec_change_datatype"
  "cSIRFReg_SIRFRegImageWeightedMean_add_image spec_engine = spec_add_image"
  "cSIRFReg_SIRFRegImageWeightedMean_add_image_filename spec_engine = spec_add_image_filename"
  "cSIRFReg_SIRFRegImageWeightedMean_update spec_engine = spec_update"
  by (simp_all add: spec_engine_def)

section \<open>Transformation chains of one element\<close>

text \<open>
  C1. For a chain of one transformation \<open>T\<close> and a reference image \<open>R\<close>, composing the
  chain is the same computation as materializing \<open>T\<close> as a deformation field over \<open>R\<close>:
  the same result or the same exception, and the same engine state afterwards, for
  every engine and every state it starts in.
\<close>

theorem compose_single_element_chain:
  assumes "isinstance T C_Transformation"
  shows "compose_single_deformation eng [T] R w = get_as_deformation_field eng T R w"
  using assms
  by (simp add: compose_single_deformation_def get_as_deformation_field_def py_simps)

theorem compose_single_element_chain_witness:
  "isinstance affine0 C_Transformation \<and>
   compose_single_deformation recording_engine [affine0] reference1 recorder4 =
     get_as_deformation_field recording_engine affine0 reference1 recorder4 \<and>
   get_as_deformation_field recording_engine affine0 reference1 recorder4 =
     (Inr \<lparr>cls = C_NiftiImage3DDeformation, handle = Some 5, name = ''NiftiImage3DDeformation''\<rparr>,
      recorder4\<lparr>allocated := 6\<rparr>)"
proof -
  have T: "isinstance affine0 C_Transformation"
    by (simp add: isinstance_def affine0_def)
  have run: "get_as_deformation_field recording_engine affine0 reference1 recorder4 =
     (Inr \<lparr>cls = C_NiftiImage3DDeformation, handle = Some 5, name = ''NiftiImage3DDeformation''\<rparr>,
      recorder4\<lparr>allocated := 6\<rparr>)"
    by (simp add: get_as_deformation_field_def py_simps NiftiImage3DDeformation_init_def
        isinstance_def reference1_def affine0_def recording_engine_def allocate_def recorder4_def)
  from compose_single_element_chain [OF T, of recording_engine reference1 recorder4] T run
  show ?thesis by simp
qed

section \<open>Operand counts\<close>

lemma dump_headers_accepts:
  assumes "length to_dump \<in> {1..5}"
  shows "\<not> fails_with UnsupportedArity (dump_headers eng to_dump w)"
proof -
  from assms consider "length to_dump = 1" | "length to_dump = 2" | "length to_dump = 3"
    | "length to_dump = 4" | "length to_dump = 5"
    by (auto simp: numeral_eq_Suc le_Suc_eq)
  then show ?thesis
    by cases
      (simp_all add: dump_headers_def fails_with_def UnsupportedArity_def py_simps
        split: prod.splits sum.splits)
qed

lemma dump_headers_rejects:
  assumes "list_all (\<lambda>n. isinstance n C_NiftiImage) to_dump" and "length to_dump \<notin> {1..5}"
  shows "dump_headers eng to_dump w =
           (Inl (error ''dump_nifti_info only implemented for up to 5 images.''), w)"
proof -
  from assms(2) have "length to_dump \<noteq> 1" "length to_dump \<noteq> 2" "length to_dump \<noteq> 3"
    "length to_dump \<noteq> 4" "length to_dump \<noteq> 5"
    by auto
  with assms(1) show ?thesis
    by (simp add: dump_headers_def py_simps)
qed

lemma get_as_deformation_field_no_arity:
  "\<not> fails_with UnsupportedArity (get_as_deformation_field eng T R w)"
  by (simp add: get_as_deformation_field_def fails_with_def UnsupportedArity_def py_simps
      NiftiImage3DDeformation_init_def split: prod.splits sum.splits)

lemma compose_accepts:
  assumes "length chain \<in> {1..5}"
  shows "\<not> fails_with UnsupportedArity (compose_single_deformation eng chain R w)"
proof -
  from assms consider "length chain = 1" | "length chain = 2" | "length chain = 3"
    | "length chain = 4" | "length chain = 5"
    by (auto simp: numeral_eq_Suc le_Suc_eq)
  then show ?thesis
  proof cases
    case 1
    then show ?thesis
      using get_as_deformation_field_no_arity [of eng "chain ! 0" R w]
      by (simp add: compose_single_deformation_def py_simps fails_with_def UnsupportedArity_def)
  qed (simp_all add: compose_single_deformation_def fails_with_def UnsupportedArity_def
        py_simps NiftiImage3DDeformation_init_def Let_def split: prod.splits sum.splits)
qed

lemma compose_rejects:
  assumes "isinstance R C_NiftiImage3D"
    and "list_all (\<lambda>n. isinstance n C_Transformation) chain"
    and "length chain \<notin> {1..5}"
  shows "compose_single_deformation eng chain R w =
           (case NiftiImage3DDeformation_init eng w of
              (Inl e, w') \<Rightarrow> (Inl e, w')
            | (Inr z, w') \<Rightarrow>
                (Inl (error
                  ''compose_single_deformation only implemented for up to 5 transformations.''), w'))"
proof -
  from assms(3) have "length chain \<noteq> 1" "length chain \<noteq> 2" "length chain \<noteq> 3"
    "length chain \<noteq> 4" "length chain \<noteq> 5"
    by auto
  with assms(1,2) show ?thesis
    by (simp add: compose_single_deformation_def py_simps Let_def
        NiftiImage3DDeformation_init_def split: prod.splits sum.splits)
qed

lemma compose_rejects_created:
  assumes "isinstance R C_NiftiImage3D"
    and "list_all (\<lambda>n. isinstance n C_Transformation) chain"
    and "length chain \<notin> {1..5}"
    and "NiftiImage3DDeformation_init eng w = (Inr z, w')"
  shows "compose_single_deformation eng chain R w =
           (Inl (error
              ''compose_single_deformation only implemented for up to 5 transformations.''), w')"
  by (simp add: compose_rejects [OF assms(1-3)] assms(4))

lemma compose_rejects_spec:
  assumes "isinstance R C_NiftiImage3D"
    and "list_all (\<lambda>n. isinstance n C_Transformation) chain"
    and "length chain \<notin> {1..5}"
  shows "fails_with UnsupportedArity (compose_single_deformation spec_engine chain R s)"
  by (simp add: compose_rejects [OF assms] init_outcome spec_engine_fields spec_newObject_def
      fails_with_def UnsupportedArity_def)

text \<open>
  C2. For every engine and every state of it: a header dump or a composition with 1 to
  5 operands does not fail with an arity error, whatever the engine answers. A header
  dump of 0 or more than 5 images fails with the arity error and leaves the engine as
  it was. A composition of 0 or more than 5 transformations fails with the arity error
  once the engine has created the empty result object, which the method asks for
  before it looks at the count; against the specified engine, which always creates
  it, the composition fails with the arity error outright. The operands of a rejected
  request are of the classes the two methods assert.
\<close>

theorem arity_of_requests:
  "(length to_dump \<in> {1..5} \<longrightarrow>
      \<not> fails_with UnsupportedArity (dump_headers eng to_dump w)) \<and>
   (length chain \<in> {1..5} \<longrightarrow>
      \<not> fails_with UnsupportedArity (compose_single_deformation eng chain R w)) \<and>
   (length to_dump \<notin> {1..5} \<and> list_all (\<lambda>n. isinstance n C_NiftiImage) to_dump \<longrightarrow>
      dump_headers eng to_dump w =
        (Inl (error ''dump_nifti_info only implemented for up to 5 images.''), w)) \<and>
   (length chain \<notin> {1..5} \<and> isinstance R C_NiftiImage3D \<and>
    list_all (\<lambda>n. isinstance n C_Transformation) chain \<and>
    NiftiImage3DDeformation_init eng w = (Inr z, w') \<longrightarrow>
      compose_single_deformation eng chain R w =
        (Inl (error
           ''compose_single_deformation only implemented for up to 5 transformations.''), w')) \<and>
   (length chain \<notin> {1..5} \<and> isinstance R C_NiftiImage3D \<and>
    list_all (\<lambda>n. isinstance n C_Transformation) chain \<longrightarrow>
      fails_with UnsupportedArity
        (compose_single_deformation spec_engine chain R s))"
  using dump_headers_accepts [of to_dump eng w] compose_accepts [of chain eng R w]
    dump_headers_rejects [of to_dump eng w] compose_rejects_created [of R chain eng w z w']
    compose_rejects_spec [of R chain s]
  by blast

theorem arity_of_requests_witness:
  "length [reference1] \<in> {1..5} \<and>
   dump_headers recording_engine [reference1] recorder4 =
     (Inr (), recorder4\<lparr>dumps := [(1, [Some 1, None, None, None, None])]\<rparr>) \<and>
   length [affine0, displacement2] \<in> {1..5} \<and>
   compose_single_deformation recording_engine [affine0, displacement2] reference1 recorder4 =
     (Inr \<lparr>cls = C_NiftiImage3DDeformation, handle = Some 5, name = ''NiftiImage3DDeformation''\<rparr>,
      recorder4\<lparr>allocated := 6\<rparr>) \<and>
   length ([] :: pyobj list) \<notin> {1..5} \<and>
   list_all (\<lambda>n. isinstance n C_NiftiImage) [] \<and>
   dump_headers recording_engine [] recorder4 =
     (Inl (error ''dump_nifti_info only implemented for up to 5 images.''), recorder4) \<and>
   length (replicate 6 affine0) \<notin> {1..5} \<and>
   isinstance reference1 C_NiftiImage3D \<and>
   list_all (\<lambda>n. isinstance n C_Transformation) (replicate 6 affine0) \<and>
   NiftiImage3DDeformation_init recording_engine recorder4 =
     (Inr \<lparr>cls = C_NiftiImage3DDeformation, handle = Some 4, name = ''NiftiImage3DDeformation''\<rparr>,
      recorder4\<lparr>allocated := 5\<rparr>) \<and>
   compose_single_deformation recording_engine (replicate 6 affine0) reference1 recorder4 =
     (Inl (error ''compose_single_deformation only implemented for up to 5 transformations.''),
      recorder4\<lparr>allocated := 5\<rparr>) \<and>
   fails_with UnsupportedArity
     (compose_single_deformation spec_engine (replicate 6 affine0) reference1 state2)"
proof -
  have types: "isinstance reference1 C_NiftiImage3D"
    "list_all (\<lambda>n. isinstance n C_Transformation) (replicate 6 affine0)"
    "list_all (\<lambda>n. isinstance n C_NiftiImage) []"
    by (simp_all add: isinstance_def reference1_def affine0_def list_all_iff)
  have lens: "length [reference1] \<in> {1..5}" "length [affine0, displacement2] \<in> {1..5}"
    "length ([] :: pyobj list) \<notin> {1..5}" "length (replicate 6 affine0) \<notin> {1..5}"
    by simp_all
  have created: "NiftiImage3DDeformation_init recording_engine recorder4 =
     (Inr \<lparr>cls = C_NiftiImage3DDeformation, handle = Some 4, name = ''NiftiImage3DDeformation''\<rparr>,
      recorder4\<lparr>allocated := 5\<rparr>)"
    by (simp add: init_outcome recording_engine_def allocate_def recorder4_def)
  have dump1: "dump_headers recording_engine [reference1] recorder4 =
     (Inr (), recorder4\<lparr>dumps := [(1, [Some 1, None, None, None, None])]\<rparr>)"
    by (simp add: dump_headers_def py_simps isinstance_def recording_engine_def reference1_def
        recorder4_def)
  have compose2: "compose_single_deformation recording_engine [affine0, displacement2]
      reference1 recorder4 =
     (Inr \<lparr>cls = C_NiftiImage3DDeformation, handle = Some 5, name = ''NiftiImage3DDeformation''\<rparr>,
      recorder4\<lparr>allocated := 6\<rparr>)"
    by (simp add: compose_single_deformation_def py_simps NiftiImage3DDeformation_init_def
        isinstance_def recording_engine_def allocate_def reference1_def affine0_def
        displacement2_def recorder4_def Let_def)
  from arity_of_requests [of "[]" recording_engine recorder4 "replicate 6 affine0" reference1
      "\<lparr>cls = C_NiftiImage3DDeformation, handle = Some 4, name = ''NiftiImage3DDeformation''\<rparr>"
      "recorder4\<lparr>allocated := 5\<rparr>" state2]
    types lens created
  have rejects: "dump_headers recording_engine [] recorder4 =
     (Inl (error ''dump_nifti_info only implemented for up to 5 images.''), recorder4)"
    "compose_single_deformation recording_engine (replicate 6 affine0) reference1 recorder4 =
     (Inl (error ''compose_single_deformation only implemented for up to 5 transformations.''),
      recorder4\<lparr>allocated := 5\<rparr>)"
    "fails_with UnsupportedArity
     (compose_single_deformation spec_engine (replicate 6 affine0) reference1 state2)"
    by blast+
  from types lens created dump1 compose2 rejects show ?thesis by blast
qed

section \<open>Interpolation codes\<close>

text \<open>
  C8. Each named setter of the resampler is the general setter at one literal code:
  nearest neighbour 0, linear 1, cubic spline 3, sinc 4. The general setter passes its
  code to the engine as the integer parameter \<open>interpolation_type\<close>, in one call. The
  codes an engine sees from the four named setters are 0, 1, 3 and 4; none is 2.
\<close>

theorem interpolation_type_codes:
  "set_interpolation_type_to_nearest_neighbour eng r w = set_interpolation_type eng r 0 w \<and>
   set_interpolation_type_to_linear eng r w = set_interpolation_type eng r 1 w \<and>
   set_interpolation_type_to_cubic_spline eng r w = set_interpolation_type eng r 3 w \<and>
   set_interpolation_type_to_sinc eng r w = set_interpolation_type eng r 4 w \<and>
   set_interpolation_type eng r k w =
     (case cSIRFReg_setParameter eng (handle r) (name r) ''interpolation_type'' (intDataHandle k) w of
        (Inl e, w') \<Rightarrow> (Inl (status_error e), w')
      | (Inr u, w') \<Rightarrow> (Inr (), w')) \<and>
   concat (map codes_set_by
     [set_interpolation_type_to_nearest_neighbour, set_interpolation_type_to_linear,
      set_interpolation_type_to_cubic_spline, set_interpolation_type_to_sinc]) =
     map intDataHandle [0, 1, 3, 4] \<and>
   intDataHandle 2 \<notin> set (concat (map codes_set_by
     [set_interpolation_type_to_nearest_neighbour, set_interpolation_type_to_linear,
      set_interpolation_type_to_cubic_spline, set_interpolation_type_to_sinc]))"
proof -
  have generic: "set_interpolation_type eng r k w =
     (case cSIRFReg_setParameter eng (handle r) (name r) ''interpolation_type'' (intDataHandle k) w of
        (Inl e, w') \<Rightarrow> (Inl (status_error e), w')
      | (Inr u, w') \<Rightarrow> (Inr (), w'))" for k
    by (simp add: set_interpolation_type_def py_bind_assert internal_set_int_par_def
        internal_setParameter_def py_bind_call_check split: prod.splits sum.splits)
  have named:
    "set_interpolation_type_to_nearest_neighbour eng r w = set_interpolation_type eng r 0 w"
    "set_interpolation_type_to_linear eng r w = set_interpolation_type eng r 1 w"
    "set_interpolation_type_to_cubic_spline eng r w = set_interpolation_type eng r 3 w"
    "set_interpolation_type_to_sinc eng r w = set_interpolation_type eng r 4 w"
    by (simp_all add: set_interpolation_type_def py_bind_assert
        set_interpolation_type_to_nearest_neighbour_def set_interpolation_type_to_linear_def
        set_interpolation_type_to_cubic_spline_def set_interpolation_type_to_sinc_def)
  have recorded: "codes_set_by set_interpolation_type_to_nearest_neighbour = [intDataHandle 0]"
    "codes_set_by set_interpolation_type_to_linear = [intDataHandle 1]"
    "codes_set_by set_interpolation_type_to_cubic_spline = [intDataHandle 3]"
    "codes_set_by set_interpolation_type_to_sinc = [intDataHandle 4]"
    by (simp_all add: codes_set_by_def
        set_interpolation_type_to_nearest_neighbour_def set_interpolation_type_to_linear_def
        set_interpolation_type_to_cubic_spline_def set_interpolation_type_to_sinc_def
        internal_set_int_par_def internal_setParameter_def py_bind_call_check
        recording_engine_def resampler3_def recorder4_def)
  show ?thesis
    using generic named by (simp add: recorded)
qed

theorem interpolation_type_codes_witness:
  "set_interpolation_type_to_cubic_spline recording_engine resampler3 recorder4 =
     (Inr (), recorder4\<lparr>parameters :=
        [(Some 3, ''SIRFRegNiftyResample'', ''interpolation_type'', intDataHandle 3)]\<rparr>)"
  using interpolation_type_codes [of recording_engine resampler3 recorder4 3]
  by (simp add: recording_engine_def resampler3_def recorder4_def)

section \<open>Copies keep the class\<close>

text \<open>What \<open>deep_copy\<close> does for an image whose name is the one its constructor stored.\<close>

lemma deep_copy_outcome:
  assumes "isinstance self C_NiftiImage" and "constructed self"
  shows "deep_copy eng self w =
     (if handle self = None then (Inl AssertionError, w)
      else case cSIRFReg_newObject eng (name self) w of
        (Inl e, w1) \<Rightarrow> (Inl (status_error e), w1)
      | (Inr r, w1) \<Rightarrow>
          (case cSIRFReg_NiftiImage_deep_copy eng (Some r) (handle self) w1 of
             (Inl e, w2) \<Rightarrow> (Inl (status_error e), w2)
           | (Inr u, w2) \<Rightarrow> (Inr \<lparr>cls = cls self, handle = Some r, name = name self\<rparr>, w2)))"
proof -
  from assms(1) consider
      "cls self = C_NiftiImage" | "cls self = C_NiftiImage3D" | "cls self = C_NiftiImage3DTensor"
    | "cls self = C_NiftiImage3DDisplacement" | "cls self = C_NiftiImage3DDeformation"
    by (auto simp: image_classes)
  then show ?thesis using assms(2)
    by cases
      (simp_all add: constructed_def deep_copy_def py_simps NiftiImage_init_def
        NiftiImage3D_init_def NiftiImage3DTensor_init_def NiftiImage3DDisplacement_init_def
        NiftiImage3DDeformation_init_def split: prod.splits sum.splits)
qed



section \<open>Dumping one header\<close>

text \<open>
  C10. For an image \<open>A\<close>, \<open>A.dump_header()\<close> and \<open>NiftiImage.dump_headers([A])\<close> are the
  same computation: one call of the native header dump with arity 1, the handle of
  \<open>A\<close> and None for the other four, whose failure is raised and whose success returns.
\<close>

theorem dump_header_singleton:
  assumes "isinstance A C_NiftiImage"
  shows "dump_header eng A w = dump_headers eng [A] w \<and>
         dump_header eng A w =
           (case cSIRFReg_NiftiImage_dump_headers eng 1 (handle A) None None None None w of
              (Inl e, w') \<Rightarrow> (Inl (status_error e), w')
            | (Inr u, w') \<Rightarrow> (Inr (), w'))"
  using assms
  by (simp add: dump_header_def dump_headers_def py_bind_assert py_bind_call_try)

theorem dump_header_singleton_witness:
  "isinstance reference1 C_NiftiImage \<and>
   dump_header recording_engine reference1 recorder4 =
     dump_headers recording_engine [reference1] recorder4 \<and>
   dump_header recording_engine reference1 recorder4 =
     (Inr (), recorder4\<lparr>dumps := [(1, [Some 1, None, None, None, None])]\<rparr>)"
proof -
  have A: "isinstance reference1 C_NiftiImage"
    by (simp add: isinstance_def reference1_def)
  have run: "dump_header recording_engine reference1 recorder4 =
     (Inr (), recorder4\<lparr>dumps := [(1, [Some 1, None, None, None, None])]\<rparr>)"
    by (simp add: dump_header_def py_simps recording_engine_def reference1_def recorder4_def)
  from dump_header_singleton [OF A, of recording_engine recorder4] A run
  show ?thesis by simp
qed

section \<open>The specified engine: what a call leaves alone\<close>

lemma extends_refl: "extends s s"
  by (simp add: extends_def)

lemma extends_length:
  assumes "extends s s'"
  shows "length (objects s) \<le> length (objects s')"
proof -
  from assms have "length (take (length (objects s)) (objects s')) = length (objects s)"
    by (simp add: extends_def)
  then show ?thesis by simp
qed

lemma extends_store:
  assumes "extends s s1" and "length (objects s) \<le> r"
  shows "extends s (store (Some r) e s1)"
  using assms by (simp add: extends_def store_def)

lemma extends_image_at:
  assumes "extends s s'" and "image_at s (Some a) = Some im"
  shows "image_at s' (Some a) = Some im"
proof -
  from assms(2) have a: "a < length (objects s)" and o: "objects s ! a = ImageData im"
    by (auto simp: image_at_def entity_at_def split: if_splits entity.splits)
  from assms(1) have "objects s' ! a = take (length (objects s)) (objects s') ! a"
    using a by simp
  also have "\<dots> = objects s ! a" using assms(1) by (simp add: extends_def)
  finally have "objects s' ! a = ImageData im" using o by simp
  moreover have "a < length (objects s')" using a extends_length [OF assms(1)] by simp
  ultimately show ?thesis by (simp add: image_at_def entity_at_def)
qed


lemma image_at_held:
  assumes "image_at s h = Some a"
  obtains r where "h = Some r" and "r < length (objects s)"
  using assms by (cases h) (auto simp: image_at_def entity_at_def split: if_splits)

lemma extends_image_at_handle:
  assumes "extends s s'" and "image_at s h = Some a"
  shows "image_at s' h = Some a"
  using assms by (metis extends_image_at image_at_held)


lemma new_image_entity:
  "new_entity ''NiftiImage'' = ImageData empty_image"
  "new_entity ''NiftiImage3D'' = ImageData empty_image"
  "new_entity ''NiftiImage3DTensor'' = ImageData empty_image"
  "new_entity ''NiftiImage3DDisplacement'' = ImageData empty_image"
  "new_entity ''NiftiImage3DDeformation'' = ImageData empty_image"
  by (simp_all add: new_entity_def image_names_def)

lemma bind_init_spec:
  "py_bind (NiftiImage_init spec_engine) k s =
     k \<lparr>cls = C_NiftiImage, handle = Some (length (objects s)), name = ''NiftiImage''\<rparr>
       (s\<lparr>objects := objects s @ [ImageData empty_image]\<rparr>)"
  "py_bind (NiftiImage3D_init spec_engine) k s =
     k \<lparr>cls = C_NiftiImage3D, handle = Some (length (objects s)), name = ''NiftiImage3D''\<rparr>
       (s\<lparr>objects := objects s @ [ImageData empty_image]\<rparr>)"
  "py_bind (NiftiImage3DTensor_init spec_engine) k s =
     k \<lparr>cls = C_NiftiImage3DTensor, handle = Some (length (objects s)),
         name = ''NiftiImage3DTensor''\<rparr>
       (s\<lparr>objects := objects s @ [ImageData empty_image]\<rparr>)"
  "py_bind (NiftiImage3DDisplacement_init spec_engine) k s =
     k \<lparr>cls = C_NiftiImage3DDisplacement, handle = Some (length (objects s)),
         name = ''NiftiImage3DDisplacement''\<rparr>
       (s\<lparr>objects := objects s @ [ImageData empty_image]\<rparr>)"
  "py_bind (NiftiImage3DDeformation_init spec_engine) k s =
     k \<lparr>cls = C_NiftiImage3DDeformation, handle = Some (length (objects s)),
         name = ''NiftiImage3DDeformation''\<rparr>
       (s\<lparr>objects := objects s @ [ImageData empty_image]\<rparr>)"
  by (simp_all add: py_bind_def init_outcome spec_engine_fields spec_newObject_def
      new_image_entity)

text \<open>Each writing operation of the engine leaves the state or stores at its destination.\<close>

lemma spec_writes:
  "writes_to dst s (snd (spec_deep_copy dst src s))"
  "writes_to dst s (snd (spec_maths_im dst a b c s))"
  "writes_to dst s (snd (spec_maths_num dst a v c s))"
  "writes_to dst s (snd (spec_fill dst v s))"
  "writes_to dst s (snd (spec_change_datatype dst dt s))"
  by (auto simp: writes_to_def spec_deep_copy_def spec_maths_im_def spec_maths_num_def
      spec_fill_def spec_change_datatype_def split: option.splits)

lemma extends_writes_to:
  assumes "extends s s1" and "writes_to (Some r) s1 s2" and "length (objects s) \<le> r"
  shows "extends s s2"
  using assms extends_store by (auto simp: writes_to_def)

lemma writes_to_refl: "writes_to dst s s"
  by (simp add: writes_to_def)

lemma writes_to_other:
  assumes "writes_to h s s'" and "h \<noteq> Some r"
  shows "image_at s' (Some r) = image_at s (Some r)"
proof (cases h)
  case None
  with assms(1) show ?thesis by (auto simp: writes_to_def store_def)
next
  case (Some d)
  with assms have "d \<noteq> r" by simp
  with Some assms(1) show ?thesis
    by (auto simp: writes_to_def store_def image_at_def entity_at_def)
qed

lemma py_bind_run:
  assumes "py_bind m k s = (r, s')"
  shows "(\<exists>e. m s = (Inl e, s') \<and> r = Inl e) \<or> (\<exists>x s1. m s = (Inr x, s1) \<and> k x s1 = (r, s'))"
  using assms by (auto simp: py_bind_def split: prod.splits sum.splits)

lemma call_try_writes:
  assumes "writes_to dst s1 (snd (f s1))" and "py_bind (call f) try_calling s1 = (u, s2)"
  shows "writes_to dst s1 s2"
  using assms by (auto simp: py_bind_call_try split: prod.splits sum.splits)

lemma float_run:
  "py_bind (float other) k s =
     (case other of Scalar v \<Rightarrow> k v s | Image x \<Rightarrow> (Inl TypeError, s))"
  by (simp add: float_def py_simps split: operand.splits)

text \<open>\<open>deep_copy\<close> against the specified engine.\<close>

lemma deep_copy_spec_run:
  assumes "handle self \<noteq> None" and "name self \<in> set image_names"
  shows "\<exists>c. deep_copy spec_engine self s =
           (case spec_deep_copy (Some (length (objects s))) (handle self)
                   (s\<lparr>objects := objects s @ [ImageData empty_image]\<rparr>) of
              (Inl e, s2) \<Rightarrow> (Inl (status_error e), s2)
            | (Inr u, s2) \<Rightarrow>
                (Inr \<lparr>cls = c, handle = Some (length (objects s)), name = name self\<rparr>, s2))"
proof -
  from assms(2) consider "name self = ''NiftiImage''" | "name self = ''NiftiImage3D''"
    | "name self = ''NiftiImage3DTensor''" | "name self = ''NiftiImage3DDisplacement''"
    | "name self = ''NiftiImage3DDeformation''"
    by (auto simp: image_names_def)
  then show ?thesis
  proof cases
    case 1
    with assms(1) have "deep_copy spec_engine self s =
           (case spec_deep_copy (Some (length (objects s))) (handle self)
                   (s\<lparr>objects := objects s @ [ImageData empty_image]\<rparr>) of
              (Inl e, s2) \<Rightarrow> (Inl (status_error e), s2)
            | (Inr u, s2) \<Rightarrow>
                (Inr \<lparr>cls = C_NiftiImage, handle = Some (length (objects s)), name = name self\<rparr>, s2))"
      by (simp add: deep_copy_def py_simps bind_init_spec spec_engine_fields
          split: prod.splits sum.splits)
    then show ?thesis by blast
  next
    case 2
    with assms(1) have "deep_copy spec_engine self s =
           (case spec_deep_copy (Some (length (objects s))) (handle self)
                   (s\<lparr>objects := objects s @ [ImageData empty_image]\<rparr>) of
              (Inl e, s2) \<Rightarrow> (Inl (status_error e), s2)
            | (Inr u, s2) \<Rightarrow>
                (Inr \<lparr>cls = C_NiftiImage3D, handle = Some (length (objects s)), name = name self\<rparr>, s2))"
      by (simp add: deep_copy_def py_simps bind_init_spec spec_engine_fields
          split: prod.splits sum.splits)
    then show ?thesis by blast
  next
    case 3
    with assms(1) have "deep_copy spec_engine self s =
           (case spec_deep_copy (Some (length (objects s))) (handle self)
                   (s\<lparr>objects := objects s @ [ImageData empty_image]\<rparr>) of
              (Inl e, s2) \<Rightarrow> (Inl (status_error e), s2)
            | (Inr u, s2) \<Rightarrow>
                (Inr \<lparr>cls = C_NiftiImage3DTensor, handle = Some (length (objects s)), name = name self\<rparr>, s2))"
      by (simp add: deep_copy_def py_simps bind_init_spec spec_engine_fields
          split: prod.splits sum.splits)
    then show ?thesis by blast
  next
    case 4
    with assms(1) have "deep_copy spec_engine self s =
           (case spec_deep_copy (Some (length (objects s))) (handle self)
                   (s\<lparr>objects := objects s @ [ImageData empty_image]\<rparr>) of
              (Inl e, s2) \<Rightarrow> (Inl (status_error e), s2)
            | (Inr u, s2) \<Rightarrow>
                (Inr \<lparr>cls = C_NiftiImage3DDisplacement, handle = Some (length (objects s)), name = name self\<rparr>, s2))"
      by (simp add: deep_copy_def py_simps bind_init_spec spec_engine_fields
          split: prod.splits sum.splits)
    then show ?thesis by blast
  next
    case 5
    with assms(1) have "deep_copy spec_engine self s =
           (case spec_deep_copy (Some (length (objects s))) (handle self)
                   (s\<lparr>objects := objects s @ [ImageData empty_image]\<rparr>) of
              (Inl e, s2) \<Rightarrow> (Inl (status_error e), s2)
            | (Inr u, s2) \<Rightarrow>
                (Inr \<lparr>cls = C_NiftiImage3DDeformation, handle = Some (length (objects s)), name = name self\<rparr>, s2))"
      by (simp add: deep_copy_def py_simps bind_init_spec spec_engine_fields
          split: prod.splits sum.splits)
    then show ?thesis by blast
  qed
qed

lemma deep_copy_spec_unbound:
  assumes "handle self \<noteq> None" and "name self \<notin> set image_names"
  shows "deep_copy spec_engine self s = (Inl UnboundLocalError, s)"
  using assms by (simp add: deep_copy_def py_simps image_names_def)

lemma deep_copy_spec_unheld:
  assumes "handle self = None"
  shows "deep_copy spec_engine self s = (Inl AssertionError, s)"
  using assms by (simp add: deep_copy_def py_simps)

lemma deep_copy_frame:
  assumes "deep_copy spec_engine self s = (r, s')"
  shows "extends s s' \<and> (case r of Inr z \<Rightarrow> fresh_in s s' z | Inl e \<Rightarrow> True)"
proof -
  let ?s1 = "s\<lparr>objects := objects s @ [ImageData empty_image]\<rparr>"
  let ?n = "length (objects s)"
  obtain h s2 where d: "spec_deep_copy (Some ?n) (handle self) ?s1 = (h, s2)"
    by (cases "spec_deep_copy (Some ?n) (handle self) ?s1")
  have s1: "extends s ?s1" by (simp add: extends_def)
  have w: "writes_to (Some ?n) ?s1 s2"
    using spec_writes(1) [of "Some ?n" ?s1 "handle self"] d by simp
  have e2: "extends s s2"
    by (rule extends_writes_to [OF s1 w]) simp
  have len: "?n < length (objects s2)"
    using w by (auto simp: writes_to_def store_def)
  show ?thesis
  proof (cases "handle self = None")
    case True
    with assms show ?thesis by (auto simp: deep_copy_spec_unheld extends_refl)
  next
    case held: False
    show ?thesis
    proof (cases "name self \<in> set image_names")
      case False
      with held assms show ?thesis by (auto simp: deep_copy_spec_unbound extends_refl)
    next
      case True
      from deep_copy_spec_run [OF held True, of s] obtain c where
        "deep_copy spec_engine self s =
           (case spec_deep_copy (Some ?n) (handle self) ?s1 of
              (Inl e, s2) \<Rightarrow> (Inl (status_error e), s2)
            | (Inr u, s2) \<Rightarrow> (Inr \<lparr>cls = c, handle = Some ?n, name = name self\<rparr>, s2))"
        by blast
      with assms have "(r, s') = (case h of Inl e \<Rightarrow> (Inl (status_error e), s2)
           | Inr u \<Rightarrow> (Inr \<lparr>cls = c, handle = Some ?n, name = name self\<rparr>, s2))"
        by (simp add: d)
      with e2 len show ?thesis
        by (cases h) (simp_all add: fresh_in_def)
    qed
  qed
qed

lemma deep_copy_spec_valid:
  assumes "isinstance A C_NiftiImage" and "constructed A" and "image_at s (handle A) = Some a"
  shows "deep_copy spec_engine A s =
           (Inr \<lparr>cls = cls A, handle = Some (length (objects s)), name = name A\<rparr>,
            s\<lparr>objects := objects s @ [ImageData a]\<rparr>)"
proof -
  let ?s1 = "s\<lparr>objects := objects s @ [new_entity (name A)]\<rparr>"
  from assms(3) obtain r where r: "handle A = Some r" "r < length (objects s)"
    by (rule image_at_held)
  from assms(1,2) have "name A \<in> set image_names"
    by (auto simp: image_classes constructed_def image_names_def)
  then have new: "new_entity (name A) = ImageData empty_image"
    by (simp add: new_entity_def)
  have "extends s ?s1" by (simp add: extends_def)
  from extends_image_at_handle [OF this assms(3)]
  have src: "image_at ?s1 (handle A) = Some a" .
  have dst: "image_at ?s1 (Some (length (objects s))) = Some empty_image"
    by (simp add: image_at_def entity_at_def new)
  have "spec_deep_copy (Some (length (objects s))) (handle A) ?s1 =
          (Inr (), s\<lparr>objects := objects s @ [ImageData a]\<rparr>)"
    by (simp add: spec_deep_copy_def src dst store_def)
  with r show ?thesis
    by (simp add: deep_copy_outcome [OF assms(1,2)] spec_engine_fields spec_newObject_def)
qed

text \<open>The arithmetic operators: the copy is new, and only the copy is written.\<close>

lemma maths_step_writes:
  assumes "(if is_NiftiImage other
            then py_bind (call (cSIRFReg_NiftiImage_maths_im spec_engine dst a
                   (operand_handle other) c)) try_calling
            else py_bind (float other) (\<lambda>v.
                 py_bind (call (cSIRFReg_NiftiImage_maths_num spec_engine dst a v c))
                   try_calling)) s1 = (u, s2)"
  shows "writes_to dst s1 s2"
proof (cases "is_NiftiImage other")
  case True
  with assms have "py_bind (call (spec_maths_im dst a (operand_handle other) c)) try_calling s1
      = (u, s2)"
    by (simp add: spec_engine_fields)
  with spec_writes(2) [of dst s1 a "operand_handle other" c] show ?thesis
    by (rule call_try_writes)
next
  case False
  show ?thesis
  proof (cases other)
    case (Image x)
    with False assms show ?thesis by (simp add: float_run writes_to_refl)
  next
    case (Scalar v)
    with False assms have "py_bind (call (spec_maths_num dst a v c)) try_calling s1 = (u, s2)"
      by (simp add: float_run spec_engine_fields)
    with spec_writes(3) [of dst s1 a v c] show ?thesis
      by (rule call_try_writes)
  qed
qed

lemma mul_step_writes:
  assumes "py_bind (float other) (\<lambda>v.
           py_bind (call (spec_maths_num dst a v c)) (\<lambda>h.
           py_bind (try_calling h) (\<lambda>_. py_return z))) s1 = (u, s2)"
  shows "writes_to dst s1 s2"
proof (cases other)
  case (Image x)
  with assms show ?thesis by (simp add: float_run writes_to_refl)
next
  case (Scalar v)
  with assms spec_writes(3) [of dst s1 a v c] show ?thesis
    by (auto simp: float_run py_simps split: prod.splits sum.splits)
qed

lemma frame_after_copy:
  assumes "extends s s1" and "fresh_in s s1 z" and "writes_to (handle z) s1 s2"
  shows "extends s s2 \<and> fresh_in s s2 z"
proof -
  from assms(2) obtain n where n: "handle z = Some n" "length (objects s) \<le> n"
    "n < length (objects s1)"
    by (auto simp: fresh_in_def split: option.splits)
  from assms(3) n have "extends s s2"
    using extends_writes_to [OF assms(1), of n s2] by simp
  moreover from assms(3) n have "length (objects s2) = length (objects s1)"
    by (auto simp: writes_to_def store_def)
  ultimately show ?thesis using n by (simp add: fresh_in_def)
qed

lemma add_frame:
  assumes "NiftiImage_add spec_engine A x s = (r, s')"
  shows "extends s s' \<and> (case r of Inr z \<Rightarrow> fresh_in s s' z | Inl e \<Rightarrow> True)"
proof -
  from py_bind_run [OF assms [unfolded NiftiImage_add_def]]
  show ?thesis
  proof (elim disjE exE conjE)
    fix e assume "deep_copy spec_engine A s = (Inl e, s')" "r = Inl e"
    then show ?thesis using deep_copy_frame [of A s "Inl e" s'] by simp
  next
    fix z s1
    assume copy: "deep_copy spec_engine A s = (Inr z, s1)"
      and rest: "py_bind
          (if is_NiftiImage x
           then py_bind (call (cSIRFReg_NiftiImage_maths_im spec_engine (handle z) (handle A)
                  (operand_handle x) 0)) try_calling
           else py_bind (float x) (\<lambda>v.
                py_bind (call (cSIRFReg_NiftiImage_maths_num spec_engine (handle z) (handle A) v 0))
                  try_calling))
          (\<lambda>_. py_return z) s1 = (r, s')"
    from deep_copy_frame [OF copy] have c: "extends s s1" "fresh_in s s1 z" by simp_all
    from py_bind_run [OF rest] obtain u where
      step: "(if is_NiftiImage x
           then py_bind (call (cSIRFReg_NiftiImage_maths_im spec_engine (handle z) (handle A)
                  (operand_handle x) 0)) try_calling
           else py_bind (float x) (\<lambda>v.
                py_bind (call (cSIRFReg_NiftiImage_maths_num spec_engine (handle z) (handle A) v 0))
                  try_calling)) s1 = (u, s')"
      and r: "r = Inr z \<or> (\<exists>e. r = Inl e)"
      by (auto simp: py_return_def)
    from frame_after_copy [OF c maths_step_writes [OF step]] r
    show ?thesis by auto
  qed
qed

lemma sub_frame:
  assumes "NiftiImage_sub spec_engine A x s = (r, s')"
  shows "extends s s' \<and> (case r of Inr z \<Rightarrow> fresh_in s s' z | Inl e \<Rightarrow> True)"
proof -
  from py_bind_run [OF assms [unfolded NiftiImage_sub_def]]
  show ?thesis
  proof (elim disjE exE conjE)
    fix e assume "deep_copy spec_engine A s = (Inl e, s')" "r = Inl e"
    then show ?thesis using deep_copy_frame [of A s "Inl e" s'] by simp
  next
    fix z s1
    assume copy: "deep_copy spec_engine A s = (Inr z, s1)"
      and rest: "py_bind
          (if is_NiftiImage x
           then py_bind (call (cSIRFReg_NiftiImage_maths_im spec_engine (handle z) (handle A)
                  (operand_handle x) 1)) try_calling
           else py_bind (float x) (\<lambda>v.
                py_bind (call (cSIRFReg_NiftiImage_maths_num spec_engine (handle z) (handle A) v 1))
                  try_calling))
          (\<lambda>_. py_return z) s1 = (r, s')"
    from deep_copy_frame [OF copy] have c: "extends s s1" "fresh_in s s1 z" by simp_all
    from py_bind_run [OF rest] obtain u where
      step: "(if is_NiftiImage x
           then py_bind (call (cSIRFReg_NiftiImage_maths_im spec_engine (handle z) (handle A)
                  (operand_handle x) 1)) try_calling
           else py_bind (float x) (\<lambda>v.
                py_bind (call (cSIRFReg_NiftiImage_maths_num spec_engine (handle z) (handle A) v 1))
                  try_calling)) s1 = (u, s')"
      and r: "r = Inr z \<or> (\<exists>e. r = Inl e)"
      by (auto simp: py_return_def)
    from frame_after_copy [OF c maths_step_writes [OF step]] r
    show ?thesis by auto
  qed
qed

lemma mul_frame:
  assumes "NiftiImage_mul spec_engine A x s = (r, s')"
  shows "extends s s' \<and> (case r of Inr z \<Rightarrow> fresh_in s s' z | Inl e \<Rightarrow> True)"
proof -
  from py_bind_run [OF assms [unfolded NiftiImage_mul_def]]
  show ?thesis
  proof (elim disjE exE conjE)
    fix e assume "deep_copy spec_engine A s = (Inl e, s')" "r = Inl e"
    then show ?thesis using deep_copy_frame [of A s "Inl e" s'] by simp
  next
    fix z s1
    assume copy: "deep_copy spec_engine A s = (Inr z, s1)"
      and rest: "py_bind (float x) (\<lambda>v.
           py_bind (call (cSIRFReg_NiftiImage_maths_num spec_engine (handle z) (handle A) v 2)) (\<lambda>h.
           py_bind (try_calling h) (\<lambda>_. py_return z))) s1 = (r, s')"
    from deep_copy_frame [OF copy] have c: "extends s s1" "fresh_in s s1 z" by simp_all
    from rest have step: "py_bind (float x) (\<lambda>v.
           py_bind (call (spec_maths_num (handle z) (handle A) v 2)) (\<lambda>h.
           py_bind (try_calling h) (\<lambda>_. py_return z))) s1 = (r, s')"
      by (simp add: spec_engine_fields)
    have r: "r = Inr z \<or> (\<exists>e. r = Inl e)"
      using step by (cases x) (auto simp: float_run py_simps split: prod.splits sum.splits)
    from frame_after_copy [OF c mul_step_writes [OF step]] r
    show ?thesis by auto
  qed
qed

section \<open>Binary operators work on a copy\<close>











section \<open>A deep copy is independent\<close>

lemma fill_writes: "writes_to (handle C) s (snd (fill spec_engine C v s))"
  using spec_writes(4) [of "handle C" s v]
  by (auto simp: fill_def py_simps spec_engine_fields writes_to_refl
      split: prod.splits sum.splits)

lemma change_datatype_writes:
  "writes_to (handle C) s (snd (change_datatype spec_engine C dt s))"
  using spec_writes(5) [of "handle C" s dt]
  by (auto simp: change_datatype_def py_simps spec_engine_fields writes_to_refl
      split: prod.splits sum.splits)

lemma fresh_in_other:
  assumes "fresh_in s s' z" and "r < length (objects s)"
  shows "handle z \<noteq> Some r"
  using assms by (auto simp: fresh_in_def split: option.splits)

lemma mutate_keeps:
  assumes "image_at s (Some r) = Some a" and "handle C \<noteq> Some r"
    and "mutate spec_engine m C s = (res, s')"
  shows "image_at s' (Some r) = Some a \<and> (\<forall>C'. res = Inr C' \<longrightarrow> handle C' \<noteq> Some r)"
proof -
  from assms(1) have r: "r < length (objects s)"
    by (auto elim: image_at_held)
  have frame: "image_at s' (Some r) = Some a \<and> (\<forall>C'. res = Inr C' \<longrightarrow> handle C' \<noteq> Some r)"
    if "extends s s' \<and> (case res of Inr z \<Rightarrow> fresh_in s s' z | Inl e \<Rightarrow> True)"
    using that extends_image_at [OF _ assms(1)] fresh_in_other [OF _ r]
    by (cases res) auto
  show ?thesis
  proof (cases m)
    case (Fill v)
    with assms(3) have s': "s' = snd (fill spec_engine C v s)"
      and res: "res = Inr C \<or> (\<exists>e. res = Inl e)"
      by (auto simp: py_bind_def py_return_def split: prod.splits sum.splits)
    from writes_to_other [OF fill_writes [of C s v] assms(2)] s' assms(1,2) res
    show ?thesis by auto
  next
    case (ChangeDatatype dt)
    with assms(3) have s': "s' = snd (change_datatype spec_engine C dt s)"
      and res: "res = Inr C \<or> (\<exists>e. res = Inl e)"
      by (auto simp: py_bind_def py_return_def split: prod.splits sum.splits)
    from writes_to_other [OF change_datatype_writes [of C s dt] assms(2)] s' assms(1,2) res
    show ?thesis by auto
  next
    case (AddTo x)
    with assms(3) show ?thesis by (intro frame add_frame) simp
  next
    case (SubFrom x)
    with assms(3) show ?thesis by (intro frame sub_frame) simp
  next
    case (MulBy x)
    with assms(3) show ?thesis by (intro frame mul_frame) simp
  qed
qed

lemma mutations_keep:
  assumes "image_at s (Some r) = Some a" and "handle C \<noteq> Some r"
  shows "image_at (snd (mutations spec_engine ms C s)) (Some r) = Some a"
  using assms
proof (induction ms arbitrary: C s)
  case Nil
  then show ?case by (simp add: py_return_def)
next
  case (Cons m ms)
  obtain res s1 where step: "mutate spec_engine m C s = (res, s1)"
    by (cases "mutate spec_engine m C s")
  from mutate_keeps [OF Cons.prems step]
  have k: "image_at s1 (Some r) = Some a" "\<And>C'. res = Inr C' \<Longrightarrow> handle C' \<noteq> Some r"
    by auto
  show ?case
  proof (cases res)
    case (Inl e)
    with step k show ?thesis by (simp add: py_bind_def)
  next
    case (Inr C')
    with step k Cons.IH [of s1 C'] show ?thesis by (simp add: py_bind_def)
  qed
qed

text \<open>
  C3, against the specified engine. For an image \<open>A\<close> the engine holds, \<open>deep_copy\<close>
  returns a copy \<open>C\<close>; right after, \<open>A == C\<close> answers 1; and whatever sequence of fills,
  datatype changes and arithmetic updates is then applied to \<open>C\<close>, to its end or to the
  first exception, the image of \<open>A\<close> (voxels, dimensions, datatype) is what it was.
\<close>

theorem deep_copy_is_independent:
  assumes "isinstance A C_NiftiImage" and "constructed A" and "image_at s (handle A) = Some a"
  shows "\<exists>C s1. deep_copy spec_engine A s = (Inr C, s1) \<and>
           NiftiImage_eq spec_engine A C s1 = (Inr 1, s1) \<and>
           (\<forall>ms. image_at (snd (mutations spec_engine ms C s1)) (handle A) = Some a)"
proof -
  let ?C = "\<lparr>cls = cls A, handle = Some (length (objects s)), name = name A\<rparr>"
  let ?s1 = "s\<lparr>objects := objects s @ [ImageData a]\<rparr>"
  from assms(3) obtain r where r: "handle A = Some r" "r < length (objects s)"
    by (rule image_at_held)
  have copy: "deep_copy spec_engine A s = (Inr ?C, ?s1)"
    by (rule deep_copy_spec_valid [OF assms])
  have "extends s ?s1" by (simp add: extends_def)
  from extends_image_at_handle [OF this assms(3)]
  have A1: "image_at ?s1 (handle A) = Some a" .
  have C1: "image_at ?s1 (handle ?C) = Some a"
    by (simp add: image_at_def entity_at_def)
  from assms(1) have "isinstance ?C C_NiftiImage"
    by (simp add: isinstance_def)
  then have eq: "NiftiImage_eq spec_engine A ?C ?s1 = (Inr 1, ?s1)"
    using A1 C1 by (simp add: NiftiImage_eq_def py_simps spec_engine_fields spec_equal_def)
  have "handle ?C \<noteq> Some r" using r by simp
  with A1 r have "image_at (snd (mutations spec_engine ms ?C ?s1)) (handle A) = Some a" for ms
    using mutations_keep [of ?s1 r a ?C ms] by simp
  with copy eq show ?thesis by blast
qed

theorem deep_copy_is_independent_witness:
  "isinstance object_a C_NiftiImage \<and> constructed object_a \<and>
   image_at state2 (handle object_a) = Some image_a \<and>
   deep_copy spec_engine object_a state2 = (Inr copy_a, state3) \<and>
   NiftiImage_eq spec_engine object_a copy_a state3 = (Inr 1, state3) \<and>
   image_at
     (snd (mutations spec_engine [Fill 7, AddTo (Image object_a), ChangeDatatype ''int8'']
            copy_a state3))
     (handle object_a) = Some image_a"
proof -
  have A: "isinstance object_a C_NiftiImage" "constructed object_a"
    "image_at state2 (handle object_a) = Some image_a"
    by (simp_all add: isinstance_def constructed_def image_at_def entity_at_def
        object_a_def state2_def)
  have run: "deep_copy spec_engine object_a state2 = (Inr copy_a, state3)"
    by (simp add: deep_copy_def py_simps bind_init_spec spec_engine_fields spec_deep_copy_def
        image_at_def entity_at_def store_def object_a_def state2_def copy_a_def state3_def)
  from deep_copy_is_independent [OF A] obtain C s1 where
    "deep_copy spec_engine object_a state2 = (Inr C, s1)"
    and eq: "NiftiImage_eq spec_engine object_a C s1 = (Inr 1, s1)"
    and keep: "\<And>ms. image_at (snd (mutations spec_engine ms C s1)) (handle object_a) = Some image_a"
    by blast
  with run have "C = copy_a" "s1 = state3" by simp_all
  with eq keep [of "[Fill 7, AddTo (Image object_a), ChangeDatatype ''int8'']"] A run
  show ?thesis by simp
qed

section \<open>Weighted mean with zero total weight\<close>

lemma store_store: "store (Some n) e2 (store (Some n) e1 s) = store (Some n) e2 s"
  by (simp add: store_def)

lemma store_same:
  assumes "entity_at s (Some n) = Some e"
  shows "store (Some n) e s = s"
  using assms by (auto simp: store_def entity_at_def split: if_splits)

lemma entity_at_store:
  assumes "entity_at s (Some n) = Some e0"
  shows "entity_at (store (Some n) e s) (Some n) = Some e"
  using assms by (auto simp: store_def entity_at_def split: if_splits)

lemma image_at_store_aggregator:
  assumes "entity_at s (Some n) = Some (Aggregator es out)"
  shows "image_at (store (Some n) (Aggregator es' out') s) h = image_at s h"
proof (cases "h = Some n")
  case True
  with assms entity_at_store [OF assms, of "Aggregator es' out'"] show ?thesis
    by (simp add: image_at_def)
next
  case False
  then show ?thesis
    by (cases h) (auto simp: image_at_def entity_at_def store_def)
qed

lemma valid_arg_store_aggregator:
  assumes "entity_at s (Some n) = Some (Aggregator es out)"
  shows "valid_arg (store (Some n) (Aggregator es' out') s) = valid_arg s"
proof
  fix p :: "image_arg \<times> 'a"
  show "valid_arg (store (Some n) (Aggregator es' out') s) p = valid_arg s p"
    by (cases "fst p") (simp_all add: valid_arg_def image_at_store_aggregator [OF assms])
qed

lemma add_image_spec:
  assumes "entity_at s (Some n) = Some (Aggregator es out)" and "handle wm = Some n"
    and "valid_arg s (img, w)"
  shows "\<exists>src. add_image spec_engine wm img w s =
           (Inr (), store (Some n) (Aggregator (es @ [(src, w)]) out) s)"
proof (cases img)
  case (Object x)
  with assms(3) obtain im where "isinstance x C_NiftiImage" "image_at s (handle x) = Some im"
    by (auto simp: valid_arg_def)
  with Object assms(1,2) have "add_image spec_engine wm img w s =
      (Inr (), store (Some n) (Aggregator (es @ [(Given im, w)]) out) s)"
    by (simp add: add_image_def py_simps spec_engine_fields spec_add_image_def)
  then show ?thesis by blast
next
  case (Str f)
  with assms(1,2) have "add_image spec_engine wm img w s =
      (Inr (), store (Some n) (Aggregator (es @ [(Named f, w)]) out) s)"
    by (simp add: add_image_def py_simps spec_engine_fields spec_add_image_filename_def)
  then show ?thesis by blast
qed

lemma add_images_spec:
  assumes "entity_at s (Some n) = Some (Aggregator es out)" and "handle wm = Some n"
    and "list_all (valid_arg s) pairs"
  shows "\<exists>es'. add_images spec_engine wm pairs s =
           (Inr (), store (Some n) (Aggregator es' out) s) \<and>
           map snd es' = map snd es @ map snd pairs"
  using assms
proof (induction pairs arbitrary: es s)
  case Nil
  from store_same [OF Nil.prems(1)]
  have "add_images spec_engine wm [] s = (Inr (), store (Some n) (Aggregator es out) s)"
    by (simp add: py_return_def)
  then show ?case by auto
next
  case (Cons p pairs)
  obtain img w where p: "p = (img, w)" by (cases p)
  from Cons.prems(3) p have v: "valid_arg s (img, w)" and vs: "list_all (valid_arg s) pairs"
    by simp_all
  from add_image_spec [OF Cons.prems(1,2) v] obtain src where
    step: "add_image spec_engine wm img w s =
             (Inr (), store (Some n) (Aggregator (es @ [(src, w)]) out) s)"
    by blast
  let ?s1 = "store (Some n) (Aggregator (es @ [(src, w)]) out) s"
  have agg1: "entity_at ?s1 (Some n) = Some (Aggregator (es @ [(src, w)]) out)"
    by (rule entity_at_store [OF Cons.prems(1)])
  from vs have vs1: "list_all (valid_arg ?s1) pairs"
    by (simp add: valid_arg_store_aggregator [OF Cons.prems(1)])
  from Cons.IH [OF agg1 Cons.prems(2) vs1] obtain es' where
    rest: "add_images spec_engine wm pairs ?s1 = (Inr (), store (Some n) (Aggregator es' out) ?s1)"
    and ws: "map snd es' = map snd (es @ [(src, w)]) @ map snd pairs"
    by blast
  from step rest have "add_images spec_engine wm (p # pairs) s =
      (Inr (), store (Some n) (Aggregator es' out) s)"
    by (simp add: p py_bind_def store_store)
  with ws p show ?case by auto
qed

lemma resolve_Nil:
  assumes "resolve fs xs = Some []"
  shows "xs = []"
proof (cases xs)
  case Nil
  then show ?thesis .
next
  case (Cons x rest)
  with assms show ?thesis
    by (cases x) (auto split: option.splits)
qed

lemma total_weight_Nil: "total_weight [] = 0"
  by (simp add: total_weight_def)

lemma spec_update_configuration:
  assumes "entity_at s h = Some (Aggregator es out)"
  shows "fst (spec_update h s) = Inl ConfigurationError \<longleftrightarrow> total_weight (map snd es) = 0"
proof (cases "total_weight (map snd es) = 0")
  case True
  with assms show ?thesis by (simp add: spec_update_def)
next
  case False
  then have "es \<noteq> []" by (auto simp: total_weight_Nil)
  then have "resolve (files s) (map fst es) \<noteq> Some []"
    using resolve_Nil [of "files s" "map fst es"] by auto
  with False assms show ?thesis
    by (simp add: spec_update_def split: option.splits list.splits)
qed

lemma update_configuration:
  assumes "entity_at s (handle wm) = Some (Aggregator es out)"
  shows "fst (ImageWeightedMean_update spec_engine wm s) = Inl (status_error ConfigurationError)
           \<longleftrightarrow> total_weight (map snd es) = 0"
  using spec_update_configuration [OF assms]
  by (auto simp: ImageWeightedMean_update_def py_bind_call_try spec_engine_fields
      split: prod.splits sum.splits)

text \<open>
  C7, against the specified engine. Create an aggregator, add images (held by the
  engine, or named by file) with their weights, and update: the update fails with
  ConfigurationError exactly when the weights, summed in the order they were added,
  give zero. So a total of zero always fails that way, and no other total does, whether
  or not it is 1.
\<close>

theorem zero_total_weight:
  assumes "list_all (valid_arg s) pairs"
  shows "fst (mean_of spec_engine pairs s) = Inl (status_error ConfigurationError)
           \<longleftrightarrow> total_weight (map snd pairs) = 0"
proof -
  let ?n = "length (objects s)"
  let ?wm = "\<lparr>cls = C_ImageWeightedMean, handle = Some ?n, name = ''SIRFRegImageWeightedMean''\<rparr>"
  let ?s0 = "s\<lparr>objects := objects s @ [Aggregator [] None]\<rparr>"
  have new: "new_entity ''SIRFRegImageWeightedMean'' = Aggregator [] None"
    by (simp add: new_entity_def image_names_def)
  have init: "ImageWeightedMean_init spec_engine s = (Inr ?wm, ?s0)"
    by (simp add: ImageWeightedMean_init_def py_simps spec_engine_fields spec_newObject_def new)
  have agg0: "entity_at ?s0 (Some ?n) = Some (Aggregator [] None)"
    by (simp add: entity_at_def)
  have ext: "extends s ?s0" by (simp add: extends_def)
  have "valid_arg ?s0 p" if "valid_arg s p" for p
  proof (cases "fst p")
    case (Object x)
    with that obtain im where "isinstance x C_NiftiImage" "image_at s (handle x) = Some im"
      by (auto simp: valid_arg_def)
    with Object extends_image_at_handle [OF ext] show ?thesis
      by (simp add: valid_arg_def)
  next
    case (Str f)
    then show ?thesis by (simp add: valid_arg_def)
  qed
  with assms have v0: "list_all (valid_arg ?s0) pairs"
    by (simp add: list_all_iff)
  from add_images_spec [OF agg0 _ v0, of ?wm] obtain es' where
    adds: "add_images spec_engine ?wm pairs ?s0 = (Inr (), store (Some ?n) (Aggregator es' None) ?s0)"
    and ws: "map snd es' = map snd pairs"
    by auto
  let ?s2 = "store (Some ?n) (Aggregator es' None) ?s0"
  have agg2: "entity_at ?s2 (handle ?wm) = Some (Aggregator es' None)"
    using entity_at_store [OF agg0] by simp
  have "mean_of spec_engine pairs s = ImageWeightedMean_update spec_engine ?wm ?s2"
    using init adds by (simp add: mean_of_def py_bind_def)
  with update_configuration [OF agg2] ws show ?thesis by simp
qed

theorem zero_total_weight_witness:
  "list_all (valid_arg state2) [(Object object_a, 1), (Object object_b, - 1)] \<and>
   total_weight (map snd [(Object object_a, 1 :: int), (Object object_b, - 1)]) = 0 \<and>
   fst (mean_of spec_engine [(Object object_a, 1), (Object object_b, - 1)] state2) =
     Inl (status_error ConfigurationError) \<and>
   total_weight (map snd [(Object object_a, 1 :: int), (Object object_b, 2)]) = 3 \<and>
   mean_of spec_engine [(Object object_a, 1), (Object object_b, 2)] state2 =
     (Inr (), state2\<lparr>objects := objects state2 @
        [Aggregator [(Given image_a, 1), (Given image_b, 2)]
           (Some (image_a\<lparr>voxels := [7, 14]\<rparr>))]\<rparr>)"
proof -
  have v: "list_all (valid_arg state2) [(Object object_a, 1), (Object object_b, - 1)]"
    by (simp add: valid_arg_def isinstance_def image_at_def entity_at_def
        object_a_def object_b_def state2_def)
  have t: "total_weight (map snd [(Object object_a, 1 :: int), (Object object_b, - 1)]) = 0"
    "total_weight (map snd [(Object object_a, 1 :: int), (Object object_b, 2)]) = 3"
    by (simp_all add: total_weight_def)
  have mean: "mean_of spec_engine [(Object object_a, 1), (Object object_b, 2)] state2 =
     (Inr (), state2\<lparr>objects := objects state2 @
        [Aggregator [(Given image_a, 1), (Given image_b, 2)]
           (Some (image_a\<lparr>voxels := [7, 14]\<rparr>))]\<rparr>)"
    by (simp add: mean_of_def ImageWeightedMean_init_def add_image_def
        ImageWeightedMean_update_def py_simps spec_engine_fields spec_newObject_def
        new_entity_def image_names_def spec_add_image_def spec_update_def
        total_weight_def weighted_mean_def isinstance_def image_at_def entity_at_def store_def
        object_a_def object_b_def state2_def image_a_def image_b_def)
  from zero_total_weight [OF v] v t mean
  show ?thesis by simp
qed

end
